theory Spec2Isabelle
  imports Complex_Main "HOL-Library.Sublist"
begin

section \<open>Strings and JavaScript values\<close>

text \<open>
  Strings are \<^typ>\<open>string\<close>, text beyond ASCII being in UTF-8, where
  \<open>String.prototype.includes\<close> is substring containment. The Unicode case mapping of
  \<open>String.prototype.toLowerCase\<close> is not modelled: every function of the code that calls
  it takes it as its first argument \<open>toLowerCase\<close>, and what is proved of such a function
  holds whatever that argument is. \<open>asciiLowerCase\<close> is what it does on ASCII text, for
  the inputs that are ASCII. A character is given by its eight bits, lowest first: an
  upper-case letter has the code \<open>010xxxxx\<close> with \<open>xxxxx\<close> from 1 (\<open>A\<close>) to 26 (\<open>Z\<close>),
  and its lower-case form is that code with bit 5 set (the code plus 32).
\<close>

fun asciiLowerChar :: "char \<Rightarrow> char" where
  "asciiLowerChar (Char b0 b1 b2 b3 b4 b5 b6 b7) =
     (if \<not> b7 \<and> b6 \<and> \<not> b5 \<and> (b0 \<or> b1 \<or> b2 \<or> b3 \<or> b4) \<and>
         \<not> (b4 \<and> b3 \<and> (b2 \<or> (b1 \<and> b0)))
      then Char b0 b1 b2 b3 b4 True b6 b7
      else Char b0 b1 b2 b3 b4 b5 b6 b7)"

definition asciiLowerCase :: "string \<Rightarrow> string" where
  "asciiLowerCase s = map asciiLowerChar s"

fun str_includes :: "string \<Rightarrow> string \<Rightarrow> bool" where
  "str_includes [] k = (k = [])"
| "str_includes (c # cs) k = (prefix k (c # cs) \<or> str_includes cs k)"

text \<open>Decimal rendering of a number inside a template literal.\<close>

function show_nat :: "nat \<Rightarrow> string" where
  "show_nat n =
     (if n < 10 then [char_of (48 + n)]
      else show_nat (n div 10) @ [char_of (48 + n mod 10)])"
  by pat_completeness auto
termination
  by (relation "measure (\<lambda>n. n)") auto

text \<open>
  JavaScript values, as far as the code looks at them: the object that \<open>analyzeIntent\<close>
  returns is read by \<open>chat\<close> through a property name, and the context that the
  provider returns is tested for truthiness and compared with \<open>null\<close>. Reading a
  property that an object does not have gives \<open>undefined\<close>. A number is an integer here
  (fractions and NaN are left out).
\<close>

datatype jsval =
    Undefined
  | Null
  | Bool bool
  | Num int
  | Str string
  | Obj "(string \<times> jsval) list"

type_synonym jsobj = "(string \<times> jsval) list"

definition get_prop :: "jsobj \<Rightarrow> string \<Rightarrow> jsval" where
  "get_prop obj k = (case map_of obj k of None \<Rightarrow> Undefined | Some v \<Rightarrow> v)"

fun truthy :: "jsval \<Rightarrow> bool" where
  "truthy Undefined = False"
| "truthy Null = False"
| "truthy (Bool b) = b"
| "truthy (Num n) = (n \<noteq> 0)"
| "truthy (Str s) = (s \<noteq> [])"
| "truthy (Obj ps) = True"

text \<open>\<open>a || d\<close> on an optional number: \<open>undefined\<close> and \<open>0\<close> are falsy.\<close>

definition num_or :: "'a::zero option \<Rightarrow> 'a \<Rightarrow> 'a" where
  "num_or a d = (case a of None \<Rightarrow> d | Some n \<Rightarrow> if n = 0 then d else n)"

text \<open>\<open>a || b\<close> on optional strings: \<open>undefined\<close> and the empty string are falsy.\<close>

definition str_or :: "string option \<Rightarrow> string option \<Rightarrow> string option" where
  "str_or a b = (case a of None \<Rightarrow> b | Some s \<Rightarrow> if s = [] then b else Some s)"

text \<open>\<open>xs.slice(-n)\<close>: the last \<open>n\<close> elements, all of them when there are fewer.\<close>

definition slice_last :: "nat \<Rightarrow> 'a list \<Rightarrow> 'a list" where
  "slice_last n xs = drop (length xs - n) xs"

text \<open>\<open>xs.join(sep)\<close>.\<close>

fun join :: "string \<Rightarrow> string list \<Rightarrow> string" where
  "join sep [] = []"
| "join sep [x] = x"
| "join sep (x # y # ys) = x @ sep @ join sep (y # ys)"


section \<open>Documents of the store\<close>

text \<open>
  Document ids are natural numbers, times are milliseconds. Field names carry the table's
  prefix (\<open>msg_\<close>, \<open>mem_\<close>, \<open>conv_\<close>, \<open>ccr_\<close>); \<open>*_id\<close> is the document's \<open>_id\<close>.
  A JavaScript number that is an importance is a \<^typ>\<open>real\<close> (NaN and the infinities are
  left out), a counter or a limit is a \<^typ>\<open>nat\<close>.
\<close>

type_synonym id = nat

record conversation =
  conv_id :: id
  conv_userId :: id
  conv_platform :: string
  conv_platformChannelId :: string
  conv_startedAt :: nat
  conv_lastActivityAt :: nat
  conv_status :: string

record metadata =
  agentType :: "string option"
  mcpToolUsed :: "string option"
  paraContextUsed :: "bool option"
  memoryExtracted :: "bool option"

definition empty_metadata :: metadata where
  "empty_metadata =
     \<lparr>agentType = None, mcpToolUsed = None, paraContextUsed = None, memoryExtracted = None\<rparr>"

record message =
  msg_id :: id
  msg_conversationId :: id
  msg_role :: string
  msg_content :: string
  msg_metadata :: metadata
  msg_createdAt :: nat

record memory =
  mem_id :: id
  mem_userId :: id
  mem_type :: string
  mem_content :: string
  mem_paraContext :: "id option"
  mem_importance :: real
  mem_accessedCount :: nat
  mem_lastAccessed :: nat
  mem_createdAt :: nat

record codeChangeRequest =
  ccr_id :: id
  ccr_userId :: id
  ccr_request :: string
  ccr_context :: string
  ccr_priority :: string
  ccr_category :: string
  ccr_status :: string
  ccr_createdAt :: nat


section \<open>The world a turn runs in\<close>

text \<open>An error object, with its \<open>name\<close> and its \<open>message\<close>; \<open>new Error(m)\<close> has the name \<open>Error\<close>.\<close>

datatype error = Error (err_name: string) (err_message: string)

text \<open>
  What one call of \<open>fetch\<close> to the model backend gives: the call rejects; or the response
  is not \<open>ok\<close>, with its status and its body text (reading the text may reject); or it is
  \<open>ok\<close>, and reading \<open>data.choices[0]?.message?.content\<close> throws or gives the content,
  \<open>None\<close> for \<open>undefined\<close>.
\<close>

datatype http_reply =
    Rejected error
  | NotOk nat "error + string"
  | Ok "error + string option"

type_synonym chat_message = "string \<times> string"

datatype event =
    RunMutation string
  | RunQuery string
  | RunAction string
  | Call string
  | Attempt nat
  | Fetch "chat_message list"
  | ConsoleError nat error
  | SetTimeout nat

text \<open>
  The state: the four tables in creation order, the next fresh document id, the clock
  that \<open>Date.now()\<close> reads, the number of \<open>fetch\<close> calls made so far, and the events of
  the run in order: every \<open>ctx.runMutation\<close>, \<open>ctx.runQuery\<close>, \<open>ctx.runAction\<close>, every
  call of a helper function of the manager, every attempt of the executor, every
  \<open>fetch\<close>, \<open>console.error\<close> and \<open>setTimeout\<close>.
\<close>

record world =
  conversations :: "conversation list"
  messages :: "message list"
  memories :: "memory list"
  codeChangeRequests :: "codeChangeRequest list"
  nextId :: id
  now :: nat
  fetched :: nat
  trace :: "event list"

text \<open>
  What the turn reads from outside: the two environment variables; the reply of the
  \<open>k\<close>-th \<open>fetch\<close>; the builtins \<open>String.prototype.toLowerCase\<close> and
  \<open>JSON.stringify\<close> (on a context, with indentation 2, and on a list of messages);
  and the action \<open>context/para/gather\<close>, whose file is missing and which is taken as a
  parameter (it fails, or gives a context).
\<close>

record env =
  ZAI_API_KEY :: "string option"
  Z_AI_API_KEY :: "string option"
  fetch :: "nat \<Rightarrow> http_reply"
  toLowerCase :: "string \<Rightarrow> string"
  stringify :: "jsval \<Rightarrow> string"
  stringify_messages :: "message list \<Rightarrow> string"
  para_gather :: "string \<Rightarrow> id \<Rightarrow> error + jsval"

definition emit :: "event \<Rightarrow> world \<Rightarrow> world" where
  "emit e w = w\<lparr>trace := trace w @ [e]\<rparr>"

text \<open>
  \<open>await new Promise((resolve) => setTimeout(resolve, delay))\<close>: the timer is set and
  the run goes on when it fires, \<open>delay\<close> milliseconds later on the clock.
\<close>

definition sleep :: "nat \<Rightarrow> world \<Rightarrow> world" where
  "sleep ms w = (emit (SetTimeout ms) w)\<lparr>now := now w + ms\<rparr>"


section \<open>The store: conversations, messages, memories, code change requests\<close>

text \<open>
  In a function registered with \<open>mutation\<close>, \<open>ctx.db.insert\<close> appends a document under
  a fresh id, and \<open>ctx.db.patch\<close> rewrites the fields given of the document with that
  id and throws when there is no such document. In a function registered with
  \<open>query\<close>, \<open>ctx.db\<close> only reads: it has no \<open>patch\<close>, and calling it throws a
  \<open>TypeError\<close>. A query over an index on one field reads the documents with that
  field's value in creation order (\<open>asc\<close>) or in reverse creation order (\<open>desc\<close>).
\<close>

subsection \<open>conversations.ts\<close>

definition conversations_create :: "id \<Rightarrow> string \<Rightarrow> string \<Rightarrow> world \<Rightarrow> id \<times> world" where
  "conversations_create userId platform platformChannelId w =
     (let doc = \<lparr>conv_id = nextId w, conv_userId = userId, conv_platform = platform,
                 conv_platformChannelId = platformChannelId, conv_startedAt = now w,
                 conv_lastActivityAt = now w, conv_status = ''active''\<rparr>
      in (nextId w, w\<lparr>conversations := conversations w @ [doc], nextId := Suc (nextId w)\<rparr>))"

definition conversations_updateActivity :: "id \<Rightarrow> world \<Rightarrow> error + world" where
  "conversations_updateActivity conversationId w =
     (if list_ex (\<lambda>c. conv_id c = conversationId) (conversations w)
      then Inr (w\<lparr>conversations :=
                    map (\<lambda>c. if conv_id c = conversationId
                             then c\<lparr>conv_lastActivityAt := now w\<rparr> else c)
                      (conversations w)\<rparr>)
      else Inl (Error ''Error'' ''Update on nonexistent document ID''))"

subsection \<open>messages.ts\<close>

definition messages_store ::
  "id \<Rightarrow> string \<Rightarrow> string \<Rightarrow> metadata option \<Rightarrow> world \<Rightarrow> id \<times> world" where
  "messages_store conversationId role content meta w =
     (let doc = \<lparr>msg_id = nextId w, msg_conversationId = conversationId, msg_role = role,
                 msg_content = content,
                 msg_metadata = (case meta of None \<Rightarrow> empty_metadata | Some m \<Rightarrow> m),
                 msg_createdAt = now w\<rparr>
      in (nextId w, w\<lparr>messages := messages w @ [doc], nextId := Suc (nextId w)\<rparr>))"

definition messages_listByConversation :: "id \<Rightarrow> nat option \<Rightarrow> world \<Rightarrow> message list" where
  "messages_listByConversation conversationId limit w =
     take (num_or limit 50)
       (filter (\<lambda>m. msg_conversationId m = conversationId) (messages w))"

subsection \<open>memories.ts\<close>

definition memories_store ::
  "id \<Rightarrow> string \<Rightarrow> string \<Rightarrow> id option \<Rightarrow> real option \<Rightarrow> world \<Rightarrow> id \<times> world" where
  "memories_store userId type content paraContext importance w =
     (let doc = \<lparr>mem_id = nextId w, mem_userId = userId, mem_type = type,
                 mem_content = content, mem_paraContext = paraContext,
                 mem_importance = num_or importance 0.5,
                 mem_accessedCount = 0, mem_lastAccessed = now w, mem_createdAt = now w\<rparr>
      in (nextId w, w\<lparr>memories := memories w @ [doc], nextId := Suc (nextId w)\<rparr>))"

text \<open>
  \<open>searchByUser\<close> is registered with \<open>query\<close>, so its
  \<open>ctx.db.patch(memory._id, {accessedCount: ..., lastAccessed: ...})\<close> is the call of a
  method that \<open>ctx.db\<close> does not have.
\<close>

definition reader_patch :: "id \<Rightarrow> nat \<Rightarrow> nat \<Rightarrow> world \<Rightarrow> error + world" where
  "reader_patch i count time w = Inl (Error ''TypeError'' ''ctx.db.patch is not a function'')"

text \<open>The loop \<open>for (const memory of memories)\<close> of \<open>searchByUser\<close>.\<close>

fun update_access_counts :: "memory list \<Rightarrow> world \<Rightarrow> error + world" where
  "update_access_counts [] w = Inr w"
| "update_access_counts (memory # rest) w =
     (case reader_patch (mem_id memory) (mem_accessedCount memory + 1) (now w) w of
        Inl e \<Rightarrow> Inl e
      | Inr w' \<Rightarrow> update_access_counts rest w')"

definition memories_searchByUser ::
  "id \<Rightarrow> nat option \<Rightarrow> world \<Rightarrow> (error + memory list) \<times> world" where
  "memories_searchByUser userId limit w =
     (let found = take (num_or limit 20)
                    (rev (filter (\<lambda>m. mem_userId m = userId) (memories w)))
      in case update_access_counts found w of
           Inl e \<Rightarrow> (Inl e, w)
         | Inr w' \<Rightarrow> (Inr found, w'))"

subsection \<open>codeChangeRequests.ts\<close>

definition codeChangeRequests_create ::
  "id \<Rightarrow> string \<Rightarrow> string \<Rightarrow> string \<Rightarrow> string \<Rightarrow> world \<Rightarrow> id \<times> world" where
  "codeChangeRequests_create userId request context priority category w =
     (let doc = \<lparr>ccr_id = nextId w, ccr_userId = userId, ccr_request = request,
                 ccr_context = context, ccr_priority = priority, ccr_category = category,
                 ccr_status = ''pending'', ccr_createdAt = now w\<rparr>
      in (nextId w,
          w\<lparr>codeChangeRequests := codeChangeRequests w @ [doc], nextId := Suc (nextId w)\<rparr>))"


section \<open>The manager: agents/manager.ts\<close>

subsection \<open>analyzeIntent\<close>

text \<open>
  The function builds its result with the shorthand property \<open>requiresPARA\<close>; its
  declared return type names that property \<open>requiresPARAContext\<close>.
\<close>

definition analyzeIntent ::
  "(string \<Rightarrow> string) \<Rightarrow> string \<Rightarrow> message list \<Rightarrow> memory list \<Rightarrow> jsobj" where
  "analyzeIntent lower message history mems =
     (let lowerMessage = lower message;
          requiresPARA =
            (str_includes lowerMessage ''project'' \<or>
             str_includes lowerMessage ''area'' \<or>
             str_includes lowerMessage ''resource'' \<or>
             str_includes lowerMessage ''task'' \<or>
             str_includes lowerMessage ''goal'' \<or>
             str_includes lowerMessage ''what'' \<or>
             str_includes lowerMessage ''show'' \<or>
             str_includes lowerMessage ''list'')
      in [(''requiresPARA'', Bool requiresPARA),
          (''intent'', Str (if requiresPARA then ''query'' else ''general''))])"

subsection \<open>detectCodeChangeRequest\<close>

record detection =
  detected :: bool
  request :: "string option"
  priority :: "string option"
  category :: "string option"

definition codeChangeKeywords :: "string list" where
  "codeChangeKeywords =
     [''add feature'', ''implement'', ''create functionality'', ''build'', ''integrate'',
      ''connect to'', ''make it'', ''can you'', ''update to'', ''change behavior'',
      ''fix code'', ''new capability'']"

definition detectCodeChangeRequest ::
  "(string \<Rightarrow> string) \<Rightarrow> string \<Rightarrow> message list \<Rightarrow> detection" where
  "detectCodeChangeRequest lower message history =
     (let lowerMessage = lower message;
          detected = list_ex (\<lambda>keyword. str_includes lowerMessage keyword) codeChangeKeywords
      in if \<not> detected
         then \<lparr>detected = False, request = None, priority = None, category = None\<rparr>
         else
           let category =
                 (if str_includes lowerMessage ''fix'' \<or> str_includes lowerMessage ''broken''
                  then ''bugfix''
                  else if str_includes lowerMessage ''refactor'' \<or>
                          str_includes lowerMessage ''clean''
                  then ''refactor''
                  else if str_includes lowerMessage ''integrate'' \<or>
                          str_includes lowerMessage ''connect''
                  then ''integration''
                  else ''feature'');
               priority =
                 (if str_includes lowerMessage ''urgent'' \<or>
                     str_includes lowerMessage ''important''
                  then ''high''
                  else if str_includes lowerMessage ''eventually'' \<or>
                          str_includes lowerMessage ''someday''
                  then ''low''
                  else ''medium'')
           in \<lparr>detected = True, request = Some message, priority = Some priority,
               category = Some category\<rparr>)"

subsection \<open>extractMemories\<close>

record candidate =
  cand_type :: string
  cand_content :: string
  cand_importance :: real

definition extractMemories ::
  "(string \<Rightarrow> string) \<Rightarrow> string \<Rightarrow> string \<Rightarrow> jsval \<Rightarrow> candidate list" where
  "extractMemories lower userMessage assistantResponse paraContext =
     (let mems0 = [];
          lowerMessage = lower userMessage;
          mems1 =
            (if str_includes lowerMessage ''i prefer'' \<or> str_includes lowerMessage ''i like''
             then mems0 @ [\<lparr>cand_type = ''preference'', cand_content = userMessage,
                             cand_importance = 0.8\<rparr>]
             else mems0);
          mems2 =
            (if str_includes lowerMessage ''my goal'' \<or> str_includes lowerMessage ''i want to''
             then mems1 @ [\<lparr>cand_type = ''goal'', cand_content = userMessage,
                             cand_importance = 0.9\<rparr>]
             else mems1);
          mems3 =
            (if str_includes lowerMessage ''i am'' \<or> str_includes lowerMessage ''i have'' \<or>
                str_includes lowerMessage ''i work''
             then mems2 @ [\<lparr>cand_type = ''fact'', cand_content = userMessage,
                             cand_importance = 0.7\<rparr>]
             else mems2)
      in mems3)"


subsection \<open>generateResponse\<close>

definition nl :: string where
  "nl = [CHR 0x0A]"

definition apostrophe :: string where
  "apostrophe = [CHR 0x27]"

definition dquote :: string where
  "dquote = [CHR 0x22]"

text \<open>
  The content of the system message; \<open>render\<close> is
  \<open>JSON.stringify(paraContext, null, 2)\<close>.
\<close>

definition systemContent :: "(jsval \<Rightarrow> string) \<Rightarrow> string list \<Rightarrow> jsval \<Rightarrow> string" where
  "systemContent render mems paraContext =
     ''You are an intelligent personal assistant with access to the user'' @ apostrophe @
     ''s PARA (Projects, Areas, Resources, Archives) system.'' @ nl @ nl @
     ''Your role is to:'' @ nl @
     ''1. Help the user manage their projects and tasks'' @ nl @
     ''2. Provide context-aware suggestions based on their PARA data'' @ nl @
     ''3. Learn from interactions to provide better personalized assistance'' @ nl @
     ''4. Be concise, helpful, and proactive'' @ nl @ nl @
     (if truthy paraContext
      then nl @ ''Relevant PARA Context:'' @ nl @ render paraContext
      else []) @ nl @ nl @
     (if length mems > 0
      then nl @ ''Relevant Memories:'' @ nl @ join (nl @ ''- '') mems
      else []) @ nl @ nl @
     ''Always base your responses on the provided context when available.''"

definition fallbackContent :: string where
  "fallbackContent =
     ''I apologize, but I couldn'' @ apostrophe @ ''t generate a response.''"

text \<open>
  What \<open>generateResponse\<close> does with the reply of \<open>fetch\<close> (from \<open>if (!response.ok)\<close>
  to its \<open>return\<close>). The result \<open>{content}\<close> is represented by its content.
\<close>

definition reply_result :: "http_reply \<Rightarrow> error + string" where
  "reply_result reply =
     (case reply of
        Rejected e \<Rightarrow> Inl e
      | NotOk status body \<Rightarrow>
          (case body of
             Inl e \<Rightarrow> Inl e
           | Inr text \<Rightarrow>
               Inl (Error ''Error''
                      (''Z.AI API error: '' @ show_nat status @ '' - '' @ text)))
      | Ok data \<Rightarrow>
          (case data of
             Inl e \<Rightarrow> Inl e
           | Inr content \<Rightarrow>
               Inr (case str_or content None of
                      None \<Rightarrow> fallbackContent
                    | Some c \<Rightarrow> c)))"

definition generateResponse ::
  "env \<Rightarrow> string \<Rightarrow> chat_message list \<Rightarrow> string list \<Rightarrow> jsval \<Rightarrow> world
     \<Rightarrow> (error + string) \<times> world" where
  "generateResponse env userMessage history mems paraContext w =
     (let apiKey = str_or (ZAI_API_KEY env) (Z_AI_API_KEY env)
      in if apiKey = None \<or> apiKey = Some []
         then (Inl (Error ''Error'' ''Z.AI API key not found in environment variables''), w)
         else
           let msgs = [(''system'', systemContent (stringify env) mems paraContext)] @
                      slice_last 10 history @ [(''user'', userMessage)];
               w1 = (emit (Fetch msgs) w)\<lparr>fetched := Suc (fetched w)\<rparr>
           in (reply_result (fetch env (fetched w)), w1))"

subsection \<open>executeWithFaultTolerance\<close>

text \<open>
  An operation \<open>() => Promise<T>\<close> acts on the world and fulfils (\<open>Inr\<close>) or rejects
  (\<open>Inl\<close>). The loop \<open>for (let attempt = 1; attempt <= maxRetries; attempt++)\<close> is
  \<open>retry_loop\<close>; \<open>lastError\<close> starts as \<open>null\<close> (\<open>None\<close>), and what is thrown after the loop
  is \<open>lastError\<close>. The delay is in milliseconds.
\<close>

definition maxRetries :: nat where
  "maxRetries = 3"

function retry_loop ::
  "(world \<Rightarrow> (error + 'a) \<times> world) \<Rightarrow> nat \<Rightarrow> error option \<Rightarrow> world
     \<Rightarrow> (error option + 'a) \<times> world" where
  "retry_loop operation attempt lastError w =
     (if attempt \<le> maxRetries
      then (case operation (emit (Attempt attempt) w) of
              (Inr v, w1) \<Rightarrow> (Inr v, w1)
            | (Inl e, w1) \<Rightarrow>
                let w2 = emit (ConsoleError attempt e) w1;
                    w3 = (if attempt < maxRetries
                          then sleep (2 ^ attempt * 1000) w2
                          else w2)
                in retry_loop operation (attempt + 1) (Some e) w3)
      else (Inl lastError, w))"
  by pat_completeness auto
termination
  by (relation "measure (\<lambda>(operation, attempt, lastError, w). Suc maxRetries - attempt)") auto

definition executeWithFaultTolerance ::
  "(world \<Rightarrow> (error + 'a) \<times> world) \<Rightarrow> string \<times> id \<times> id \<Rightarrow> world
     \<Rightarrow> (error option + 'a) \<times> world" where
  "executeWithFaultTolerance operation context w = retry_loop operation 1 None w"

subsection \<open>chat\<close>

datatype turn_result =
    Response string nat
  | CodeChangeRequest string string

fun result_type :: "turn_result \<Rightarrow> string" where
  "result_type (Response content memoriesExtracted) = ''response''"
| "result_type (CodeChangeRequest msg requestId) = ''code_change_request''"

text \<open>The loop \<open>for (const memory of extractedMemories)\<close> of step 8.\<close>

fun store_extracted :: "id \<Rightarrow> candidate list \<Rightarrow> world \<Rightarrow> world" where
  "store_extracted userId [] w = w"
| "store_extracted userId (memory # rest) w =
     store_extracted userId rest
       (snd (memories_store userId (cand_type memory) (cand_content memory) None
               (Some (cand_importance memory)) (emit (RunMutation ''memories/store'') w)))"

text \<open>
  Steps 7 to 9 of the handler (the lines after the code change check). What the handler
  throws is what the call that failed threw; the executor may throw \<open>null\<close> (\<open>None\<close>).
\<close>

definition chat_respond ::
  "env \<Rightarrow> string \<Rightarrow> id \<Rightarrow> id \<Rightarrow> message list \<Rightarrow> memory list \<Rightarrow> jsval \<Rightarrow> world
     \<Rightarrow> (error option + turn_result) \<times> world" where
  "chat_respond env message userId convId history mems paraContext w =
     (case executeWithFaultTolerance
             (\<lambda>w'. generateResponse env message
                      (map (\<lambda>m. (msg_role m, msg_content m)) history)
                      (map mem_content mems) paraContext
                      (emit (Call ''generateResponse'') w'))
             (''generate_response'', userId, convId) w of
        (Inl thrown, w1) \<Rightarrow> (Inl thrown, w1)
      | (Inr agentResponse, w1) \<Rightarrow>
          let extractedMemories =
                extractMemories (toLowerCase env) message agentResponse paraContext;
              w2 = store_extracted userId extractedMemories (emit (Call ''extractMemories'') w1);
              w3 = snd (messages_store convId ''assistant'' agentResponse
                          (Some \<lparr>agentType = Some ''manager'', mcpToolUsed = None,
                                 paraContextUsed = Some (paraContext \<noteq> Null),
                                 memoryExtracted = Some (length extractedMemories > 0)\<rparr>)
                          (emit (RunMutation ''messages/store'') w2))
          in case conversations_updateActivity convId
                    (emit (RunMutation ''conversations/updateActivity'') w3) of
               Inl e \<Rightarrow> (Inl (Some e), emit (RunMutation ''conversations/updateActivity'') w3)
             | Inr w4 \<Rightarrow> (Inr (Response agentResponse (length extractedMemories)), w4))"

text \<open>The message of the result of a code change request.\<close>

definition acknowledgement :: "string \<Rightarrow> string" where
  "acknowledgement r =
     ''I'' @ apostrophe @ ''ve captured your request for: '' @ dquote @ r @ dquote @
     ''. This has been queued for future implementation.''"

text \<open>
  Step 6 of the handler and what follows it. A detection without its optional fields
  cannot be passed to the mutation, whose arguments are required.
\<close>

definition chat_code_check ::
  "env \<Rightarrow> string \<Rightarrow> id \<Rightarrow> id \<Rightarrow> message list \<Rightarrow> memory list \<Rightarrow> jsval \<Rightarrow> world
     \<Rightarrow> (error option + turn_result) \<times> world" where
  "chat_code_check env message userId convId history mems paraContext w =
     (let codeChangeCheck = detectCodeChangeRequest (toLowerCase env) message history;
          w1 = emit (Call ''detectCodeChangeRequest'') w
      in if detected codeChangeCheck
         then (case (request codeChangeCheck, priority codeChangeCheck,
                     category codeChangeCheck) of
                 (Some r, Some p, Some c) \<Rightarrow>
                   let w2 = snd (codeChangeRequests_create userId r
                                   (stringify_messages env (slice_last 3 history)) p c
                                   (emit (RunMutation ''codeChangeRequests/create'') w1))
                   in (Inr (CodeChangeRequest (acknowledgement r) r), w2)
               | _ \<Rightarrow> (Inl (Some (Error ''Error'' ''ArgumentValidationError'')), w1))
         else chat_respond env message userId convId history mems paraContext w1)"

text \<open>
  Step 5 of the handler and what follows it, for the object \<open>intent\<close> that step 4 got:
  the condition reads its property \<open>requiresPARAContext\<close>; \<open>paraContext\<close> starts as
  \<open>null\<close>.
\<close>

definition chat_context ::
  "env \<Rightarrow> jsobj \<Rightarrow> string \<Rightarrow> id \<Rightarrow> id \<Rightarrow> message list \<Rightarrow> memory list \<Rightarrow> world
     \<Rightarrow> (error option + turn_result) \<times> world" where
  "chat_context env intent message userId convId history mems w =
     (if truthy (get_prop intent ''requiresPARAContext'')
      then (case para_gather env message userId of
              Inl e \<Rightarrow> (Inl (Some e), emit (RunAction ''context/para/gather'') w)
            | Inr paraContext \<Rightarrow>
                chat_code_check env message userId convId history mems paraContext
                  (emit (RunAction ''context/para/gather'') w))
      else chat_code_check env message userId convId history mems Null w)"

text \<open>
  Steps 1 to 3 of the handler: the conversation is resolved or created, the user message
  stored, the history and the memories read. The result is \<open>convId\<close>, \<open>history\<close> and
  \<open>memories\<close>, or what the memory query threw.
\<close>

definition chat_load ::
  "string \<Rightarrow> id \<Rightarrow> id option \<Rightarrow> world
     \<Rightarrow> (error option + id \<times> message list \<times> memory list) \<times> world" where
  "chat_load message userId conversationId w =
     (let (convId, w1) =
            (case conversationId of
               Some c \<Rightarrow> (c, w)
             | None \<Rightarrow>
                 conversations_create userId ''cli'' (''cli-'' @ show_nat (now w))
                   (emit (RunMutation ''conversations/create'') w));
          w2 = snd (messages_store convId ''user'' message (Some empty_metadata)
                      (emit (RunMutation ''messages/store'') w1));
          w3 = emit (RunQuery ''messages/listByConversation'') w2;
          history = messages_listByConversation convId (Some 20) w3
      in case memories_searchByUser userId (Some 10)
                (emit (RunQuery ''memories/searchByUser'') w3) of
           (Inl e, w4) \<Rightarrow> (Inl (Some e), w4)
         | (Inr mems, w4) \<Rightarrow> (Inr (convId, history, mems), w4))"

text \<open>The handler: steps 1 to 3, step 4, then \<open>chat_context\<close>.\<close>

definition chat ::
  "env \<Rightarrow> string \<Rightarrow> id \<Rightarrow> id option \<Rightarrow> world \<Rightarrow> (error option + turn_result) \<times> world" where
  "chat env message userId conversationId w =
     (case chat_load message userId conversationId w of
        (Inl thrown, w4) \<Rightarrow> (Inl thrown, w4)
      | (Inr (convId, history, mems), w4) \<Rightarrow>
          chat_context env (analyzeIntent (toLowerCase env) message history mems)
            message userId convId history mems (emit (Call ''analyzeIntent'') w4))"


section \<open>Notions used in the statements\<close>

text \<open>The events that a run added to the trace.\<close>

definition new_events :: "world \<Rightarrow> world \<Rightarrow> event list" where
  "new_events w w' = drop (length (trace w)) (trace w')"

text \<open>The number of attempts recorded in a trace, and the time waited in it (ms).\<close>

fun is_attempt :: "event \<Rightarrow> bool" where
  "is_attempt (Attempt n) = True"
| "is_attempt e = False"

fun delay_of :: "event \<Rightarrow> nat" where
  "delay_of (SetTimeout ms) = ms"
| "delay_of e = 0"

definition attempts :: "event list \<Rightarrow> nat" where
  "attempts evs = length (filter is_attempt evs)"

definition waited :: "event list \<Rightarrow> nat" where
  "waited evs = sum_list (map delay_of evs)"

fun is_run_action :: "event \<Rightarrow> bool" where
  "is_run_action (RunAction f) = True"
| "is_run_action e = False"

text \<open>A list of events without a call of an action.\<close>

definition quiet :: "event list \<Rightarrow> bool" where
  "quiet evs = list_all (\<lambda>e. \<not> is_run_action e) evs"

text \<open>The events of steps 1 to 3 of a turn.\<close>

definition load_events :: "id option \<Rightarrow> event list" where
  "load_events conversationId =
     (case conversationId of
        None \<Rightarrow> [RunMutation ''conversations/create'']
      | Some c \<Rightarrow> []) @
     [RunMutation ''messages/store'', RunQuery ''messages/listByConversation'',
      RunQuery ''memories/searchByUser'']"

text \<open>The events of a run of the executor around \<open>generateResponse\<close>.\<close>

fun retry_event :: "event \<Rightarrow> bool" where
  "retry_event (Attempt n) = True"
| "retry_event (Fetch msgs) = True"
| "retry_event (ConsoleError n e) = True"
| "retry_event (SetTimeout ms) = True"
| "retry_event (Call f) = (f = ''generateResponse'')"
| "retry_event e = False"

text \<open>
  The error that the specification names for a failure after the last attempt: an error
  of the class \<open>ExhaustedRetries\<close> (also written \<open>ExhaustedRetriesError\<close>).
\<close>

definition spec_ExhaustedRetries :: "error \<Rightarrow> bool" where
  "spec_ExhaustedRetries e =
     (err_name e = ''ExhaustedRetries'' \<or> err_name e = ''ExhaustedRetriesError'')"

text \<open>The condition \<open>!apiKey\<close> of \<open>generateResponse\<close>.\<close>

definition key_missing :: "env \<Rightarrow> bool" where
  "key_missing env =
     (str_or (ZAI_API_KEY env) (Z_AI_API_KEY env) = None \<or>
      str_or (ZAI_API_KEY env) (Z_AI_API_KEY env) = Some [])"

text \<open>Every stored memory has an importance between 0 and 1.\<close>

definition importance_inv :: "world \<Rightarrow> bool" where
  "importance_inv w =
     list_all (\<lambda>m. 0 \<le> mem_importance m \<and> mem_importance m \<le> 1) (memories w)"

text \<open>The keywords of the intent classifier, and the three rules of the memory extractor.\<close>

definition intentKeywords :: "string list" where
  "intentKeywords =
     [''project'', ''area'', ''resource'', ''task'', ''goal'', ''what'', ''show'', ''list'']"

definition rule_preference :: "(string \<Rightarrow> string) \<Rightarrow> string \<Rightarrow> bool" where
  "rule_preference lower utterance =
     (str_includes (lower utterance) ''i prefer'' \<or>
      str_includes (lower utterance) ''i like'')"

definition rule_goal :: "(string \<Rightarrow> string) \<Rightarrow> string \<Rightarrow> bool" where
  "rule_goal lower utterance =
     (str_includes (lower utterance) ''my goal'' \<or>
      str_includes (lower utterance) ''i want to'')"

definition rule_fact :: "(string \<Rightarrow> string) \<Rightarrow> string \<Rightarrow> bool" where
  "rule_fact lower utterance =
     (str_includes (lower utterance) ''i am'' \<or>
      str_includes (lower utterance) ''i have'' \<or>
      str_includes (lower utterance) ''i work'')"

text \<open>
  A store with nothing in it, and three environments: one whose model backend answers,
  one whose backend is down, one without an API key. Their texts are ASCII, and the
  context provider returns \<open>null\<close>.
\<close>

definition empty_world :: world where
  "empty_world =
     \<lparr>conversations = [], messages = [], memories = [], codeChangeRequests = [],
      nextId = 0, now = 1000, fetched = 0, trace = []\<rparr>"

definition env_up :: env where
  "env_up =
     \<lparr>ZAI_API_KEY = Some ''key'', Z_AI_API_KEY = None,
      fetch = (\<lambda>k. Ok (Inr (Some ''Hello''))),
      toLowerCase = asciiLowerCase,
      stringify = (\<lambda>v. ''null''),
      stringify_messages = (\<lambda>ms. ''[]''),
      para_gather = (\<lambda>query userId. Inr Null)\<rparr>"

definition env_down :: env where
  "env_down = env_up\<lparr>fetch := (\<lambda>k. Rejected (Error ''TypeError'' ''fetch failed''))\<rparr>"

definition env_no_key :: env where
  "env_no_key = env_up\<lparr>ZAI_API_KEY := None\<rparr>"


text \<open>An operation that rejects its first \<open>n\<close> calls and fulfils from then on.\<close>

definition flaky :: "nat \<Rightarrow> world \<Rightarrow> (error + string) \<times> world" where
  "flaky n w =
     (if fetched w < n then Inl (Error ''Error'' ''down'') else Inr ''ok'',
      w\<lparr>fetched := Suc (fetched w)\<rparr>)"

text \<open>A store whose conversation 1 holds three messages.\<close>

definition three_messages :: world where
  "three_messages =
     snd (messages_store 1 ''assistant'' ''third'' None
       (snd (messages_store 1 ''user'' ''second'' None
         (snd (messages_store 1 ''user'' ''first'' None empty_world)))))"

text \<open>A store with one memory, appended with importance 0.9.\<close>

definition one_memory :: world where
  "one_memory =
     snd (memories_store 7 ''goal'' ''My goal is to learn'' None (Some 0.9) empty_world)"

declare show_nat.simps [simp del]
declare retry_loop.simps [simp del]


section \<open>Lower case and substring containment\<close>

lemma asciiLowerCase_alphabet:
  "asciiLowerCase ''ABCDEFGHIJKLMNOPQRSTUVWXYZ'' = ''abcdefghijklmnopqrstuvwxyz''"
  "asciiLowerCase ''abcdefghijklmnopqrstuvwxyz'' = ''abcdefghijklmnopqrstuvwxyz''"
  "asciiLowerCase ''@[`{ 0123456789.,?!'' = ''@[`{ 0123456789.,?!''"
  by (simp_all add: asciiLowerCase_def)

lemma str_includes_iff: "str_includes s k \<longleftrightarrow> (\<exists>p q. s = p @ k @ q)"
proof (induction s)
  case Nil
  then show ?case by auto
next
  case (Cons c cs)
  show ?case
  proof
    assume "str_includes (c # cs) k"
    then consider "prefix k (c # cs)" | "str_includes cs k" by auto
    then show "\<exists>p q. c # cs = p @ k @ q"
    proof cases
      case 1
      then obtain q where "c # cs = k @ q" by (auto simp: prefix_def)
      then have "c # cs = [] @ k @ q" by simp
      then show ?thesis by blast
    next
      case 2
      with Cons.IH obtain p q where "cs = p @ k @ q" by blast
      then have "c # cs = (c # p) @ k @ q" by simp
      then show ?thesis by blast
    qed
  next
    assume "\<exists>p q. c # cs = p @ k @ q"
    then obtain p q where pq: "c # cs = p @ k @ q" by blast
    show "str_includes (c # cs) k"
    proof (cases p)
      case Nil
      with pq have "prefix k (c # cs)" by (simp add: prefix_def)
      then show ?thesis by simp
    next
      case (Cons a p')
      with pq have "cs = p' @ k @ q" by simp
      with Cons.IH have "str_includes cs k" by blast
      then show ?thesis by simp
    qed
  qed
qed



section \<open>The intent classifier\<close>

text \<open>
  What \<open>analyzeIntent\<close> computes, whatever \<open>toLowerCase\<close> is: the flag \<open>requiresPARA\<close>
  is true exactly when the lower-cased utterance contains one of the eight keywords,
  and the label is \<open>query\<close> then and \<open>general\<close> otherwise. The property
  \<open>requiresPARAContext\<close>, which the declared return type promises and \<open>chat\<close> reads,
  is on no result.
\<close>

lemma analyzeIntent_requiresPARA:
  "get_prop (analyzeIntent lower message history mems) ''requiresPARA'' =
     Bool (list_ex (str_includes (lower message)) intentKeywords)"
  by (simp add: analyzeIntent_def get_prop_def Let_def intentKeywords_def)

lemma analyzeIntent_intent:
  "get_prop (analyzeIntent lower message history mems) ''intent'' =
     Str (if list_ex (str_includes (lower message)) intentKeywords
          then ''query'' else ''general'')"
  by (simp add: analyzeIntent_def get_prop_def Let_def intentKeywords_def)

lemma analyzeIntent_requiresPARAContext:
  "get_prop (analyzeIntent lower message history mems) ''requiresPARAContext'' = Undefined"
  by (simp add: analyzeIntent_def get_prop_def Let_def)

text \<open>
  C6, at the utterance \<open>What projects am I currently working on?\<close>, an ASCII text whose
  lower-cased form contains \<open>what\<close> and \<open>project\<close>: the classifier returns the label
  \<open>query\<close> and the flag under the name \<open>requiresPARA\<close>; the property
  \<open>requiresPARAContext\<close> of its result is \<open>undefined\<close>, which is not true.
\<close>

theorem C6_analyzeIntent_failing_input:
  "analyzeIntent asciiLowerCase ''What projects am I currently working on?'' [] [] =
     [(''requiresPARA'', Bool True), (''intent'', Str ''query'')] \<and>
   get_prop (analyzeIntent asciiLowerCase ''What projects am I currently working on?'' [] [])
     ''requiresPARAContext'' = Undefined \<and>
   \<not> truthy (get_prop
              (analyzeIntent asciiLowerCase ''What projects am I currently working on?'' [] [])
              ''requiresPARAContext'')"
proof -
  have lower: "asciiLowerCase ''What projects am I currently working on?'' =
      ''what projects am i currently working on?''"
    by (simp add: asciiLowerCase_def)
  have "analyzeIntent asciiLowerCase ''What projects am I currently working on?'' [] [] =
      [(''requiresPARA'', Bool True), (''intent'', Str ''query'')]"
    by (simp add: analyzeIntent_def lower)
  then show ?thesis by (simp add: get_prop_def)
qed


section \<open>The memory extractor\<close>

text \<open>
  C7, for every utterance and whatever \<open>toLowerCase\<close> is: the candidates depend on the
  utterance only (not on the response, nor on the context); they are, in this order,
  the preference candidate (importance 0.8) when the lower-cased utterance contains
  \<open>i prefer\<close> or \<open>i like\<close>, the goal candidate (0.9) when it contains \<open>my goal\<close> or
  \<open>i want to\<close>, and the fact candidate (0.7) when it contains \<open>i am\<close>, \<open>i have\<close> or
  \<open>i work\<close>, each with the utterance verbatim as its content; and the list is empty
  exactly when no rule matches.
\<close>

theorem C7_extractMemories_rules:
  "extractMemories lower utterance response context =
     extractMemories lower utterance response' context' \<and>
   extractMemories lower utterance response context =
     (if rule_preference lower utterance
      then [\<lparr>cand_type = ''preference'', cand_content = utterance, cand_importance = 0.8\<rparr>]
      else []) @
     (if rule_goal lower utterance
      then [\<lparr>cand_type = ''goal'', cand_content = utterance, cand_importance = 0.9\<rparr>]
      else []) @
     (if rule_fact lower utterance
      then [\<lparr>cand_type = ''fact'', cand_content = utterance, cand_importance = 0.7\<rparr>]
      else []) \<and>
   (extractMemories lower utterance response context = [] \<longleftrightarrow>
      \<not> rule_preference lower utterance \<and> \<not> rule_goal lower utterance \<and>
      \<not> rule_fact lower utterance)"
  by (simp add: extractMemories_def rule_preference_def rule_goal_def rule_fact_def Let_def)

text \<open>
  C7 at the ASCII utterance \<open>I am a developer and I prefer mornings\<close>: the preference
  rule and the fact rule match, the goal rule does not, and the candidates are a
  preference and a fact.
\<close>

theorem C7_extractMemories_rules_witness:
  "rule_preference asciiLowerCase ''I am a developer and I prefer mornings'' \<and>
   \<not> rule_goal asciiLowerCase ''I am a developer and I prefer mornings'' \<and>
   rule_fact asciiLowerCase ''I am a developer and I prefer mornings'' \<and>
   extractMemories asciiLowerCase ''I am a developer and I prefer mornings'' ''Noted.'' Null =
     [\<lparr>cand_type = ''preference'', cand_content = ''I am a developer and I prefer mornings'',
       cand_importance = 0.8\<rparr>,
      \<lparr>cand_type = ''fact'', cand_content = ''I am a developer and I prefer mornings'',
       cand_importance = 0.7\<rparr>]"
proof -
  have lower: "asciiLowerCase ''I am a developer and I prefer mornings'' =
      ''i am a developer and i prefer mornings''"
    by (simp add: asciiLowerCase_def)
  have p: "rule_preference asciiLowerCase ''I am a developer and I prefer mornings''"
    by (simp add: rule_preference_def lower)
  have g: "\<not> rule_goal asciiLowerCase ''I am a developer and I prefer mornings''"
    by (simp add: rule_goal_def lower)
  have f: "rule_fact asciiLowerCase ''I am a developer and I prefer mornings''"
    by (simp add: rule_fact_def lower)
  from C7_extractMemories_rules
    [of asciiLowerCase "''I am a developer and I prefer mornings''" "''Noted.''" Null
        "''Noted.''" Null] p g f
  show ?thesis by simp
qed


section \<open>memories/store\<close>

text \<open>
  C10: \<open>memories/store\<close> appends one memory; when the importance is omitted or 0 the
  memory has importance 0.5; the importance stored is never 0; and the access count of
  the new memory is 0.
\<close>

theorem C10_store_importance_default:
  "\<exists>m. memories (snd (memories_store userId type content paraContext importance w)) =
         memories w @ [m] \<and>
       (importance = None \<or> importance = Some 0 \<longrightarrow> mem_importance m = 0.5) \<and>
       mem_importance m \<noteq> 0 \<and>
       mem_accessedCount m = 0"
  by (auto simp: memories_store_def num_or_def Let_def split: option.splits)

text \<open>C10 at a call with importance 0 on the empty store.\<close>

theorem C10_store_importance_default_witness:
  "\<exists>m. memories (snd (memories_store 7 ''fact'' ''I am here'' None (Some 0) empty_world)) =
         memories empty_world @ [m] \<and>
       mem_importance m = 0.5 \<and> mem_importance m \<noteq> 0 \<and> mem_accessedCount m = 0"
  using C10_store_importance_default [of 7 "''fact''" "''I am here''" None "Some 0" empty_world]
  by simp


section \<open>messages/listByConversation\<close>

text \<open>
  The query reads the conversation's messages in creation order and keeps the first
  \<open>limit\<close> of them (50 when the limit is omitted or 0): the oldest ones.
\<close>

lemma listByConversation_oldest:
  "messages_listByConversation conversationId limit w =
     take (num_or limit 50) (filter (\<lambda>m. msg_conversationId m = conversationId) (messages w))"
  by (simp add: messages_listByConversation_def)

text \<open>
  For every conversation that holds more than \<open>n\<close> messages (\<open>n\<close> positive, the
  documents distinct), the query with limit \<open>n\<close> returns the first \<open>n\<close> messages of
  the conversation, and these are not its last \<open>n\<close>.
\<close>

lemma listByConversation_not_most_recent:
  assumes "distinct (messages w)"
    and "0 < n"
    and "n < length (filter (\<lambda>m. msg_conversationId m = conversationId) (messages w))"
  shows "messages_listByConversation conversationId (Some n) w =
           take n (filter (\<lambda>m. msg_conversationId m = conversationId) (messages w)) \<and>
         messages_listByConversation conversationId (Some n) w \<noteq>
           slice_last n (filter (\<lambda>m. msg_conversationId m = conversationId) (messages w))"
proof -
  let ?all = "filter (\<lambda>m. msg_conversationId m = conversationId) (messages w)"
  have d: "distinct ?all" using assms(1) by simp
  have eq: "messages_listByConversation conversationId (Some n) w = take n ?all"
    using assms(2) by (simp add: messages_listByConversation_def num_or_def)
  have "take n ?all ! 0 = ?all ! 0" using assms(2) by simp
  moreover have "slice_last n ?all ! 0 = ?all ! (length ?all - n)"
    using assms(2,3) by (simp add: slice_last_def)
  moreover have "?all ! 0 \<noteq> ?all ! (length ?all - n)"
  proof -
    have "0 < length ?all" "length ?all - n < length ?all" "0 \<noteq> length ?all - n"
      using assms(2,3) by (auto simp del: length_filter_conv_card)
    then show ?thesis using d nth_eq_iff_index_eq by blast
  qed
  ultimately have "take n ?all \<noteq> slice_last n ?all" by metis
  with eq show ?thesis by simp
qed

text \<open>
  C5, at a conversation of three messages \<open>first\<close>, \<open>second\<close>, \<open>third\<close> and limit 2:
  the query returns \<open>first\<close> and \<open>second\<close>, the two oldest, while the two most recent,
  oldest first, are \<open>second\<close> and \<open>third\<close>.
\<close>

theorem C5_listByConversation_failing_input:
  "map msg_content (filter (\<lambda>m. msg_conversationId m = 1) (messages three_messages)) =
     [''first'', ''second'', ''third''] \<and>
   map msg_content (messages_listByConversation 1 (Some 2) three_messages) =
     [''first'', ''second''] \<and>
   map msg_content
     (slice_last 2 (filter (\<lambda>m. msg_conversationId m = 1) (messages three_messages))) =
     [''second'', ''third'']"
  by (simp add: three_messages_def messages_store_def empty_world_def
        messages_listByConversation_def num_or_def slice_last_def)


section \<open>Events and the clock\<close>

lemma trace_emit [simp]: "trace (emit e w) = trace w @ [e]"
  by (simp add: emit_def)

lemma trace_sleep [simp]: "trace (sleep ms w) = trace w @ [SetTimeout ms]"
  by (simp add: sleep_def)

lemma attempts_append [simp]: "attempts (xs @ ys) = attempts xs + attempts ys"
  by (simp add: attempts_def)

lemma waited_append [simp]: "waited (xs @ ys) = waited xs + waited ys"
  by (simp add: waited_def)

lemma attempts_simps [simp]:
  "attempts [] = 0"
  "attempts (Attempt n # evs) = Suc (attempts evs)"
  "attempts (ConsoleError n e # evs) = attempts evs"
  "attempts (SetTimeout ms # evs) = attempts evs"
  "attempts (Fetch msgs # evs) = attempts evs"
  "attempts (Call f # evs) = attempts evs"
  "attempts (RunMutation f # evs) = attempts evs"
  "attempts (RunQuery f # evs) = attempts evs"
  "attempts (RunAction f # evs) = attempts evs"
  by (simp_all add: attempts_def)

lemma waited_simps [simp]:
  "waited [] = 0"
  "waited (SetTimeout ms # evs) = ms + waited evs"
  "waited (Attempt n # evs) = waited evs"
  "waited (ConsoleError n e # evs) = waited evs"
  "waited (Fetch msgs # evs) = waited evs"
  "waited (Call f # evs) = waited evs"
  "waited (RunMutation f # evs) = waited evs"
  "waited (RunQuery f # evs) = waited evs"
  "waited (RunAction f # evs) = waited evs"
  by (simp_all add: waited_def)


lemma now_emit [simp]: "now (emit e w) = now w"
  by (simp add: emit_def)

lemma now_sleep [simp]: "now (sleep ms w) = now w + ms"
  by (simp add: sleep_def emit_def)

section \<open>The fault-tolerant executor\<close>

lemma retry_loop_4: "retry_loop operation 4 lastError w = (Inl lastError, w)"
  by (subst retry_loop.simps) (simp add: maxRetries_def)

lemma retry_loop_3:
  "retry_loop operation 3 lastError w =
     (case operation (emit (Attempt 3) w) of
        (Inr v, w3) \<Rightarrow> (Inr v, w3)
      | (Inl e3, w3) \<Rightarrow> (Inl (Some e3), emit (ConsoleError 3 e3) w3))"
  by (subst retry_loop.simps) (simp del: One_nat_def add: maxRetries_def retry_loop_4 Let_def split: prod.split sum.split)

lemma retry_loop_2:
  "retry_loop operation 2 lastError w =
     (case operation (emit (Attempt 2) w) of
        (Inr v, w2) \<Rightarrow> (Inr v, w2)
      | (Inl e2, w2) \<Rightarrow>
          retry_loop operation 3 (Some e2) (sleep (2 ^ 2 * 1000) (emit (ConsoleError 2 e2) w2)))"
  by (subst retry_loop.simps) (simp del: One_nat_def add: maxRetries_def Let_def split: prod.split sum.split)

lemma retry_loop_1:
  "retry_loop operation 1 lastError w =
     (case operation (emit (Attempt 1) w) of
        (Inr v, w1) \<Rightarrow> (Inr v, w1)
      | (Inl e1, w1) \<Rightarrow>
          retry_loop operation 2 (Some e1) (sleep (2 ^ 1 * 1000) (emit (ConsoleError 1 e1) w1)))"
  by (subst retry_loop.simps) (simp del: One_nat_def add: maxRetries_def Let_def split: prod.split sum.split)

lemma executeWithFaultTolerance_unfold:
  "executeWithFaultTolerance operation context w =
     (case operation (emit (Attempt 1) w) of
        (Inr v, w1) \<Rightarrow> (Inr v, w1)
      | (Inl e1, w1) \<Rightarrow>
          (case operation (emit (Attempt 2)
                  (sleep (2 ^ 1 * 1000) (emit (ConsoleError 1 e1) w1))) of
             (Inr v, w2) \<Rightarrow> (Inr v, w2)
           | (Inl e2, w2) \<Rightarrow>
               (case operation (emit (Attempt 3)
                       (sleep (2 ^ 2 * 1000) (emit (ConsoleError 2 e2) w2))) of
                  (Inr v, w3) \<Rightarrow> (Inr v, w3)
                | (Inl e3, w3) \<Rightarrow> (Inl (Some e3), emit (ConsoleError 3 e3) w3))))"
  unfolding executeWithFaultTolerance_def retry_loop_1 retry_loop_2 retry_loop_3 ..

lemma executeWithFaultTolerance_counts:
  assumes fa: "\<And>u. attempts (trace (snd (operation u))) = attempts (trace u)"
    and fw: "\<And>u. waited (trace (snd (operation u))) = waited (trace u)"
    and fn: "\<And>u. now (snd (operation u)) = now u"
  shows "let r = fst (executeWithFaultTolerance operation context w);
             w' = snd (executeWithFaultTolerance operation context w);
             k = attempts (trace w') - attempts (trace w);
             total = (if k = 1 then 0 else if k = 2 then 2 ^ 1 * 1000
                      else 2 ^ 1 * 1000 + 2 ^ 2 * 1000)
         in 1 \<le> k \<and> k \<le> 3 \<and>
            ((\<exists>e. r = Inl e) \<longrightarrow> k = 3) \<and>
            waited (trace w') = waited (trace w) + total \<and>
            now w' = now w + total"
proof -
  obtain r1 w1 where o1: "operation (emit (Attempt 1) w) = (r1, w1)"
    by (cases "operation (emit (Attempt 1) w)")
  have a1: "attempts (trace w1) = attempts (trace w) + 1"
    using fa [of "emit (Attempt 1) w"] o1 by simp
  have t1: "waited (trace w1) = waited (trace w)"
    using fw [of "emit (Attempt 1) w"] o1 by simp
  have n1: "now w1 = now w"
    using fn [of "emit (Attempt 1) w"] o1 by simp
  show ?thesis
  proof (cases r1)
    case (Inr v)
    then have "executeWithFaultTolerance operation context w = (Inr v, w1)"
      using o1 by (simp add: executeWithFaultTolerance_unfold)
    then show ?thesis by (simp add: a1 t1 n1)
  next
    case (Inl e1)
    define u1 where "u1 = emit (Attempt 2) (sleep (2 ^ 1 * 1000) (emit (ConsoleError 1 e1) w1))"
    obtain r2 w2 where o2: "operation u1 = (r2, w2)"
      by (cases "operation u1")
    have a2: "attempts (trace w2) = attempts (trace w) + 2"
      using fa [of u1] o2 a1 by (simp add: u1_def)
    have t2: "waited (trace w2) = waited (trace w) + 2 ^ 1 * 1000"
      using fw [of u1] o2 t1 by (simp add: u1_def)
    have n2: "now w2 = now w + 2 ^ 1 * 1000"
      using fn [of u1] o2 n1 by (simp add: u1_def)
    show ?thesis
    proof (cases r2)
      case (Inr v)
      then have "executeWithFaultTolerance operation context w = (Inr v, w2)"
        using o1 o2 Inl by (simp add: executeWithFaultTolerance_unfold u1_def)
      then show ?thesis by (simp add: a2 t2 n2)
    next
      case e2: (Inl e2)
      define u2 where
        "u2 = emit (Attempt 3) (sleep (2 ^ 2 * 1000) (emit (ConsoleError 2 e2) w2))"
      obtain r3 w3 where o3: "operation u2 = (r3, w3)"
        by (cases "operation u2")
      have a3: "attempts (trace w3) = attempts (trace w) + 3"
        using fa [of u2] o3 a2 by (simp add: u2_def)
      have t3: "waited (trace w3) = waited (trace w) + 2 ^ 1 * 1000 + 2 ^ 2 * 1000"
        using fw [of u2] o3 t2 by (simp add: u2_def)
      have n3: "now w3 = now w + 2 ^ 1 * 1000 + 2 ^ 2 * 1000"
        using fn [of u2] o3 n2 by (simp add: u2_def)
      show ?thesis
      proof (cases r3)
        case (Inr v)
        then have "executeWithFaultTolerance operation context w = (Inr v, w3)"
          using o1 o2 o3 Inl e2 by (simp add: executeWithFaultTolerance_unfold u1_def u2_def)
        then show ?thesis by (simp add: a3 t3 n3)
      next
        case e3: (Inl e3)
        then have "executeWithFaultTolerance operation context w =
            (Inl (Some e3), emit (ConsoleError 3 e3) w3)"
          using o1 o2 o3 Inl e2 by (simp add: executeWithFaultTolerance_unfold u1_def u2_def)
        then show ?thesis by (simp add: a3 t3 n3)
      qed
    qed
  qed
qed

text \<open>
  C2: the executor runs the operation at most three times. A fulfilled attempt ends the
  run with that attempt's result; a rejected attempt 1 is followed by a wait of
  \<open>2 ^ 1 * 1000\<close> ms and attempt 2, a rejected attempt 2 by a wait of \<open>2 ^ 2 * 1000\<close> ms
  and attempt 3; a rejected attempt 3 ends the run with the error of that attempt.
  A wait of \<open>ms\<close> milliseconds moves the clock by \<open>ms\<close>, so attempt 2 starts exactly
  \<open>2 ^ 1\<close> s after attempt 1 was rejected and attempt 3 exactly \<open>2 ^ 2\<close> s after
  attempt 2 was.
  For an operation that records no attempt and no timer of its own and takes no time,
  the run makes between 1 and 3 attempts and fails only after exactly 3; and both the
  timers it has set and the time that has passed on the clock when it ends are nothing
  after one attempt, \<open>2 ^ 1\<close> s after two and \<open>2 ^ 1 + 2 ^ 2\<close> s after three.
\<close>

theorem C2_executeWithFaultTolerance_retries:
  "executeWithFaultTolerance operation context w =
     (case operation (emit (Attempt 1) w) of
        (Inr v, w1) \<Rightarrow> (Inr v, w1)
      | (Inl e1, w1) \<Rightarrow>
          (case operation (emit (Attempt 2)
                  (sleep (2 ^ 1 * 1000) (emit (ConsoleError 1 e1) w1))) of
             (Inr v, w2) \<Rightarrow> (Inr v, w2)
           | (Inl e2, w2) \<Rightarrow>
               (case operation (emit (Attempt 3)
                       (sleep (2 ^ 2 * 1000) (emit (ConsoleError 2 e2) w2))) of
                  (Inr v, w3) \<Rightarrow> (Inr v, w3)
                | (Inl e3, w3) \<Rightarrow> (Inl (Some e3), emit (ConsoleError 3 e3) w3)))) \<and>
   ((\<forall>u. attempts (trace (snd (operation u))) = attempts (trace u) \<and>
         waited (trace (snd (operation u))) = waited (trace u) \<and>
         now (snd (operation u)) = now u) \<longrightarrow>
    (let r = fst (executeWithFaultTolerance operation context w);
         w' = snd (executeWithFaultTolerance operation context w);
         k = attempts (trace w') - attempts (trace w);
         total = (if k = 1 then 0 else if k = 2 then 2 ^ 1 * 1000
                  else 2 ^ 1 * 1000 + 2 ^ 2 * 1000)
     in 1 \<le> k \<and> k \<le> 3 \<and>
        ((\<exists>e. r = Inl e) \<longrightarrow> k = 3) \<and>
        waited (trace w') = waited (trace w) + total \<and>
        now w' = now w + total)) \<and>
   now (sleep ms w) = now w + ms \<and>
   now (emit (Attempt 2) (sleep (2 ^ 1 * 1000) (emit (ConsoleError 1 e1) w1))) =
     now w1 + 2 ^ 1 * 1000 \<and>
   now (emit (Attempt 3) (sleep (2 ^ 2 * 1000) (emit (ConsoleError 2 e2) w2))) =
     now w2 + 2 ^ 2 * 1000"
  using executeWithFaultTolerance_unfold [of operation "context" w]
    executeWithFaultTolerance_counts [of operation "context" w]
  by (simp add: Let_def)

text \<open>
  C2 at an operation that rejects twice and then fulfils (the result is the third
  attempt's, after 3 attempts, with \<open>2 ^ 1 + 2 ^ 2\<close> s passed on the clock, which
  started at 1000 ms), and at one that always rejects (failure with the last error
  after 3 attempts).
\<close>

theorem C2_executeWithFaultTolerance_retries_witness:
  "(\<forall>u. attempts (trace (snd (flaky 2 u))) = attempts (trace u) \<and>
        waited (trace (snd (flaky 2 u))) = waited (trace u) \<and>
        now (snd (flaky 2 u)) = now u) \<and>
   fst (executeWithFaultTolerance (flaky 2) (''generate_response'', 7, 1) empty_world) = Inr ''ok'' \<and>
   attempts (trace (snd (executeWithFaultTolerance (flaky 2) (''generate_response'', 7, 1) empty_world))) = 3 \<and>
   waited (trace (snd (executeWithFaultTolerance (flaky 2) (''generate_response'', 7, 1) empty_world))) = 2 ^ 1 * 1000 + 2 ^ 2 * 1000 \<and>
   now (snd (executeWithFaultTolerance (flaky 2) (''generate_response'', 7, 1) empty_world)) =
     1000 + (2 ^ 1 * 1000 + 2 ^ 2 * 1000) \<and>
   fst (executeWithFaultTolerance (flaky 9) (''generate_response'', 7, 1) empty_world) =
     Inl (Some (Error ''Error'' ''down'')) \<and>
   attempts (trace (snd (executeWithFaultTolerance (flaky 9) (''generate_response'', 7, 1) empty_world))) = 3"
  using C2_executeWithFaultTolerance_retries [of "flaky 2" "(''generate_response'', 7, 1)" empty_world]
        C2_executeWithFaultTolerance_retries [of "flaky 9" "(''generate_response'', 7, 1)" empty_world]
  by (simp add: flaky_def empty_world_def emit_def sleep_def attempts_def waited_def)


section \<open>memories/searchByUser\<close>

text \<open>
  The query writes nothing: it fulfils with the empty list when the user has no memory
  (and the limit is not 0), and throws at the first \<open>ctx.db.patch\<close> as soon as it has
  found one.
\<close>

lemma update_access_counts_result:
  "update_access_counts found w =
     (if found = [] then Inr w else Inl (Error ''TypeError'' ''ctx.db.patch is not a function''))"
  by (cases found) (simp_all add: reader_patch_def)

lemma searchByUser_result:
  "memories_searchByUser userId limit w =
     (if take (num_or limit 20) (rev (filter (\<lambda>m. mem_userId m = userId) (memories w))) = []
      then (Inr [], w)
      else (Inl (Error ''TypeError'' ''ctx.db.patch is not a function''), w))"
  by (simp add: memories_searchByUser_def update_access_counts_result Let_def)

lemma searchByUser_world [simp]:
  "snd (memories_searchByUser userId limit w) = w"
  by (simp add: searchByUser_result)

lemma searchByUser_10:
  "fst (memories_searchByUser userId (Some 10) w) =
     (if filter (\<lambda>m. mem_userId m = userId) (memories w) = []
      then Inr []
      else Inl (Error ''TypeError'' ''ctx.db.patch is not a function''))"
  by (simp add: searchByUser_result num_or_def take_eq_Nil)

text \<open>
  C9, at the store that holds one memory of user 7, appended with importance 0.9: the
  call of \<open>memories/searchByUser\<close> that finds it throws a \<open>TypeError\<close> and returns
  nothing, and the stored memory is as it was: its access count is still 0.
\<close>

theorem C9_searchByUser_failing_input:
  "memories one_memory =
     [\<lparr>mem_id = 0, mem_userId = 7, mem_type = ''goal'', mem_content = ''My goal is to learn'',
       mem_paraContext = None, mem_importance = 0.9, mem_accessedCount = 0,
       mem_lastAccessed = 1000, mem_createdAt = 1000\<rparr>] \<and>
   memories_searchByUser 7 (Some 10) one_memory =
     (Inl (Error ''TypeError'' ''ctx.db.patch is not a function''), one_memory)"
proof -
  have m: "memories one_memory =
     [\<lparr>mem_id = 0, mem_userId = 7, mem_type = ''goal'', mem_content = ''My goal is to learn'',
       mem_paraContext = None, mem_importance = 0.9, mem_accessedCount = 0,
       mem_lastAccessed = 1000, mem_createdAt = 1000\<rparr>]"
    by (simp add: one_memory_def memories_store_def empty_world_def num_or_def)
  then show ?thesis by (simp add: searchByUser_result num_or_def)
qed


section \<open>The importance of stored memories\<close>

text \<open>
  \<open>memories/store\<close> keeps an importance between 0 and 1 in that range, and the
  candidates of the extractor have importance 0.7, 0.8 or 0.9.
\<close>

lemma store_importance:
  "\<exists>m. memories (snd (memories_store userId type content paraContext importance w)) =
          memories w @ [m] \<and> mem_importance m = num_or importance 0.5"
  by (simp add: memories_store_def)

lemma store_importance_in_range:
  assumes "importance_inv w"
    and "importance = None \<or> (\<exists>x. importance = Some x \<and> 0 \<le> x \<and> x \<le> 1)"
  shows "importance_inv (snd (memories_store userId type content paraContext importance w))"
  using assms by (auto simp: importance_inv_def memories_store_def num_or_def)

lemma extractMemories_importance:
  "m \<in> set (extractMemories lower userMessage assistantResponse paraContext) \<Longrightarrow>
     cand_importance m = 0.8 \<or> cand_importance m = 0.9 \<or> cand_importance m = 0.7"
  by (auto simp: extractMemories_def Let_def split: if_splits)

text \<open>
  C8, at a call of \<open>memories/store\<close> with importance 1.5 on the empty store: every
  memory of the empty store has an importance in \<open>[0,1]\<close>, and after the call the
  store holds a memory of importance 1.5.
\<close>

theorem C8_store_failing_input:
  "importance_inv empty_world \<and>
   map mem_importance
     (memories (snd (memories_store 7 ''fact'' ''I am here'' None (Some 1.5) empty_world))) =
     [1.5] \<and>
   \<not> importance_inv (snd (memories_store 7 ''fact'' ''I am here'' None (Some 1.5) empty_world))"
  by (simp add: importance_inv_def empty_world_def memories_store_def num_or_def)


section \<open>What the steps after the code change check preserve\<close>

text \<open>
  A property of the state that every step preserves is preserved by steps 6 to 9 of
  the handler. The steps are: recording an event that is not a call of an action,
  waiting, counting a \<open>fetch\<close>, and the mutations of the store that these steps call
  (a memory is stored with one of the importances of the extractor).
\<close>

lemma generateResponse_preserves:
  assumes "Q w"
    and emit: "\<And>msgs u. Q u \<Longrightarrow> Q (emit (Fetch msgs) u)"
    and fetched: "\<And>u n. Q u \<Longrightarrow> Q (u\<lparr>fetched := n\<rparr>)"
  shows "Q (snd (generateResponse env userMessage history mems paraContext w))"
  using assms by (simp add: generateResponse_def Let_def)

lemma executeWithFaultTolerance_preserves:
  assumes "Q w"
    and op: "\<And>u. Q u \<Longrightarrow> Q (snd (operation u))"
    and attempt: "\<And>n u. Q u \<Longrightarrow> Q (emit (Attempt n) u)"
    and failed: "\<And>n e u. Q u \<Longrightarrow> Q (emit (ConsoleError n e) u)"
    and sleep: "\<And>ms u. Q u \<Longrightarrow> Q (sleep ms u)"
  shows "Q (snd (executeWithFaultTolerance operation ctx w))"
proof -
  have step: "\<And>u n. Q u \<Longrightarrow> Q (snd (operation (emit (Attempt n) u)))"
    by (simp add: op attempt)
  have next_try: "\<And>u n e ms. Q u \<Longrightarrow> Q (sleep ms (emit (ConsoleError n e) u))"
    by (simp add: sleep failed)
  obtain r1 w1 where o1: "operation (emit (Attempt 1) w) = (r1, w1)"
    by (cases "operation (emit (Attempt 1) w)")
  have q1: "Q w1" using step [OF assms(1), of 1] o1 by simp
  show ?thesis
  proof (cases r1)
    case (Inr v)
    then show ?thesis using o1 q1 by (simp add: executeWithFaultTolerance_unfold)
  next
    case (Inl e1)
    define u1 where "u1 = sleep (2 ^ 1 * 1000) (emit (ConsoleError 1 e1) w1)"
    obtain r2 w2 where o2: "operation (emit (Attempt 2) u1) = (r2, w2)"
      by (cases "operation (emit (Attempt 2) u1)")
    have "Q u1" unfolding u1_def by (rule next_try [OF q1])
    then have q2: "Q w2" using step [of u1 2] o2 by simp
    show ?thesis
    proof (cases r2)
      case (Inr v)
      then show ?thesis using o1 o2 Inl q2 by (simp add: executeWithFaultTolerance_unfold u1_def)
    next
      case e2: (Inl e2)
      define u2 where "u2 = sleep (2 ^ 2 * 1000) (emit (ConsoleError 2 e2) w2)"
      obtain r3 w3 where o3: "operation (emit (Attempt 3) u2) = (r3, w3)"
        by (cases "operation (emit (Attempt 3) u2)")
      have "Q u2" unfolding u2_def by (rule next_try [OF q2])
      then have q3: "Q w3" using step [of u2 3] o3 by simp
      have q3': "\<And>e. Q (emit (ConsoleError 3 e) w3)" by (simp add: failed q3)
      show ?thesis
        using o1 o2 o3 Inl e2 q3 q3'
        by (cases r3) (simp_all add: executeWithFaultTolerance_unfold u1_def u2_def)
    qed
  qed
qed

lemma store_extracted_preserves:
  assumes "Q w"
    and "\<forall>m \<in> set cands. cand_importance m = 0.8 \<or> cand_importance m = 0.9 \<or> cand_importance m = 0.7"
    and emit: "\<And>e u. Q u \<Longrightarrow> \<not> is_run_action e \<Longrightarrow> Q (emit e u)"
    and store: "\<And>a t c x u. Q u \<Longrightarrow> x = 0.8 \<or> x = 0.9 \<or> x = 0.7 \<Longrightarrow>
                  Q (snd (memories_store a t c None (Some x) u))"
  shows "Q (store_extracted userId cands w)"
  using assms(1,2)
proof (induction cands arbitrary: w)
  case Nil
  then show ?case by simp
next
  case (Cons m cands)
  have "Q (emit (RunMutation ''memories/store'') w)"
    using Cons.prems(1) by (simp add: emit)
  then have "Q (snd (memories_store userId (cand_type m) (cand_content m) None
                   (Some (cand_importance m)) (emit (RunMutation ''memories/store'') w)))"
    using Cons.prems(2) by (simp add: store)
  then show ?case using Cons.IH Cons.prems(2) by simp
qed

lemma chat_respond_preserves:
  assumes "Q w"
    and emit: "\<And>e u. Q u \<Longrightarrow> \<not> is_run_action e \<Longrightarrow> Q (emit e u)"
    and sleep: "\<And>ms u. Q u \<Longrightarrow> Q (sleep ms u)"
    and fetched: "\<And>u n. Q u \<Longrightarrow> Q (u\<lparr>fetched := n\<rparr>)"
    and store: "\<And>a t c x u. Q u \<Longrightarrow> x = 0.8 \<or> x = 0.9 \<or> x = 0.7 \<Longrightarrow>
                  Q (snd (memories_store a t c None (Some x) u))"
    and msg: "\<And>c r t m u. Q u \<Longrightarrow> Q (snd (messages_store c r t m u))"
    and act: "\<And>c u u'. Q u \<Longrightarrow> conversations_updateActivity c u = Inr u' \<Longrightarrow> Q u'"
  shows "Q (snd (chat_respond env message userId convId history mems paraContext w))"
proof -
  let ?op = "\<lambda>w'. generateResponse env message (map (\<lambda>m. (msg_role m, msg_content m)) history)
                     (map mem_content mems) paraContext (emit (Call ''generateResponse'') w')"
  let ?run = "executeWithFaultTolerance ?op (''generate_response'', userId, convId) w"
  have op: "\<And>u. Q u \<Longrightarrow> Q (snd (?op u))"
  proof -
    fix u assume "Q u"
    then have "Q (emit (Call ''generateResponse'') u)" by (simp add: emit)
    then show "Q (snd (?op u))"
      by (rule generateResponse_preserves [where Q = Q, OF _ emit fetched]) simp_all
  qed
  have run: "Q (snd ?run)"
    by (rule executeWithFaultTolerance_preserves [where Q = Q, OF assms(1) op emit emit sleep])
       simp_all
  obtain r w1 where rw: "?run = (r, w1)" by (cases ?run)
  then have q1: "Q w1" using run by simp
  show ?thesis
  proof (cases r)
    case (Inl thrown)
    then show ?thesis using rw q1 by (simp add: chat_respond_def)
  next
    case (Inr agentResponse)
    let ?ex = "extractMemories (toLowerCase env) message agentResponse paraContext"
    let ?w3 = "snd (messages_store convId ''assistant'' agentResponse
                 (Some \<lparr>agentType = Some ''manager'', mcpToolUsed = None,
                        paraContextUsed = Some (paraContext \<noteq> Null),
                        memoryExtracted = Some (length ?ex > 0)\<rparr>)
                 (emit (RunMutation ''messages/store'')
                    (store_extracted userId ?ex (emit (Call ''extractMemories'') w1))))"
    have "Q (store_extracted userId ?ex (emit (Call ''extractMemories'') w1))"
    proof (rule store_extracted_preserves [where Q = Q, OF _ _ emit store])
      show "Q (emit (Call ''extractMemories'') w1)" by (simp add: emit q1)
      show "\<forall>m\<in>set ?ex. cand_importance m = 0.8 \<or> cand_importance m = 0.9 \<or>
              cand_importance m = 0.7"
        using extractMemories_importance by blast
    qed
    then have q3: "Q (emit (RunMutation ''conversations/updateActivity'') ?w3)"
      by (simp add: emit msg)
    show ?thesis
    proof (cases "conversations_updateActivity convId
                    (emit (RunMutation ''conversations/updateActivity'') ?w3)")
      case (Inl e)
      then show ?thesis using rw Inr q3 by (simp add: chat_respond_def Let_def)
    next
      case act_ok: (Inr w4)
      then have "Q w4" using act [OF q3] by blast
      then show ?thesis using rw Inr act_ok by (simp add: chat_respond_def Let_def)
    qed
  qed
qed

lemma detect_detected:
  "detected (detectCodeChangeRequest lower message history) =
     list_ex (str_includes (lower message)) codeChangeKeywords"
  by (simp add: detectCodeChangeRequest_def Let_def)

lemma detect_fields:
  assumes "detected (detectCodeChangeRequest lower message history)"
  shows "\<exists>p c. request (detectCodeChangeRequest lower message history) = Some message \<and>
               priority (detectCodeChangeRequest lower message history) = Some p \<and>
               category (detectCodeChangeRequest lower message history) = Some c"
  using assms by (simp add: detectCodeChangeRequest_def Let_def split: if_splits)

lemma chat_code_check_preserves:
  assumes "Q w"
    and emit: "\<And>e u. Q u \<Longrightarrow> \<not> is_run_action e \<Longrightarrow> Q (emit e u)"
    and sleep: "\<And>ms u. Q u \<Longrightarrow> Q (sleep ms u)"
    and fetched: "\<And>u n. Q u \<Longrightarrow> Q (u\<lparr>fetched := n\<rparr>)"
    and store: "\<And>a t c x u. Q u \<Longrightarrow> x = 0.8 \<or> x = 0.9 \<or> x = 0.7 \<Longrightarrow>
                  Q (snd (memories_store a t c None (Some x) u))"
    and msg: "\<And>c r t m u. Q u \<Longrightarrow> Q (snd (messages_store c r t m u))"
    and act: "\<And>c u u'. Q u \<Longrightarrow> conversations_updateActivity c u = Inr u' \<Longrightarrow> Q u'"
    and ccr: "\<And>a r h p c u. Q u \<Longrightarrow> Q (snd (codeChangeRequests_create a r h p c u))"
  shows "Q (snd (chat_code_check env message userId convId history mems paraContext w))"
proof (cases "detected (detectCodeChangeRequest (toLowerCase env) message history)")
  case True
  from detect_fields [OF True] obtain p c where
    "request (detectCodeChangeRequest (toLowerCase env) message history) = Some message"
    "priority (detectCodeChangeRequest (toLowerCase env) message history) = Some p"
    "category (detectCodeChangeRequest (toLowerCase env) message history) = Some c" by blast
  then show ?thesis using True assms(1)
    by (simp add: chat_code_check_def Let_def emit ccr)
next
  case False
  have "Q (emit (Call ''detectCodeChangeRequest'') w)"
    using assms(1) by (simp add: emit)
  then have "Q (snd (chat_respond env message userId convId history mems paraContext
                       (emit (Call ''detectCodeChangeRequest'') w)))"
    by (rule chat_respond_preserves [where Q = Q, OF _ emit sleep fetched store msg act])
  then show ?thesis using False by (simp add: chat_code_check_def Let_def)
qed


section \<open>The fields that a step leaves alone\<close>

lemma emit_fields [simp]:
  "messages (emit e u) = messages u"
  "memories (emit e u) = memories u"
  "codeChangeRequests (emit e u) = codeChangeRequests u"
  "conversations (emit e u) = conversations u"
  "fetched (emit e u) = fetched u"
  "now (emit e u) = now u"
  "nextId (emit e u) = nextId u"
  by (simp_all add: emit_def)

lemma sleep_fields [simp]:
  "messages (sleep ms u) = messages u"
  "memories (sleep ms u) = memories u"
  "codeChangeRequests (sleep ms u) = codeChangeRequests u"
  "conversations (sleep ms u) = conversations u"
  "fetched (sleep ms u) = fetched u"
  "nextId (sleep ms u) = nextId u"
  by (simp_all add: sleep_def)

lemma store_fields [simp]:
  "trace (snd (messages_store c r t m u)) = trace u"
  "trace (snd (conversations_create a p ch u)) = trace u"
  "trace (snd (memories_store a ty co pc imp u)) = trace u"
  "trace (snd (codeChangeRequests_create a rq h pr ca u)) = trace u"
  by (simp_all add: messages_store_def conversations_create_def memories_store_def
        codeChangeRequests_create_def)

lemma updateActivity_fields:
  assumes "conversations_updateActivity c u = Inr u'"
  shows "trace u' = trace u" "messages u' = messages u" "memories u' = memories u"
    "codeChangeRequests u' = codeChangeRequests u" "fetched u' = fetched u" "now u' = now u"
  using assms by (auto simp: conversations_updateActivity_def split: if_splits)



section \<open>The context provider and the code change detector\<close>

lemma quiet_simps [simp]:
  "quiet []"
  "quiet (e # evs) = (\<not> is_run_action e \<and> quiet evs)"
  "quiet (xs @ ys) = (quiet xs \<and> quiet ys)"
  by (simp_all add: quiet_def)

lemma extends_rules:
  fixes pre :: "event list"
  defines "Q \<equiv> \<lambda>u. \<exists>evs. trace u = pre @ evs \<and> quiet evs"
  shows "\<And>e u. Q u \<Longrightarrow> \<not> is_run_action e \<Longrightarrow> Q (emit e u)"
    and "\<And>ms u. Q u \<Longrightarrow> Q (sleep ms u)"
    and "\<And>u n. Q u \<Longrightarrow> Q (u\<lparr>fetched := n\<rparr>)"
    and "\<And>a t c x u. Q u \<Longrightarrow> x = 0.8 \<or> x = 0.9 \<or> x = 0.7 \<Longrightarrow>
           Q (snd (memories_store a t c None (Some (x::real)) u))"
    and "\<And>c r t m u. Q u \<Longrightarrow> Q (snd (messages_store c r t m u))"
    and "\<And>c u u'. Q u \<Longrightarrow> conversations_updateActivity c u = Inr u' \<Longrightarrow> Q u'"
    and "\<And>a r h p c u. Q u \<Longrightarrow> Q (snd (codeChangeRequests_create a r h p c u))"
    and "\<And>a p c u. Q u \<Longrightarrow> Q (snd (conversations_create a p c u))"
    and "\<And>a l u. Q u \<Longrightarrow> Q (snd (memories_searchByUser a l u))"
  unfolding Q_def by (auto simp: updateActivity_fields)








section \<open>Steps 1 to 3 of a turn\<close>

lemma chat_load_preserves:
  assumes "Q w"
    and emit: "\<And>e u. Q u \<Longrightarrow> \<not> is_run_action e \<Longrightarrow> Q (emit e u)"
    and msg: "\<And>c r t m u. Q u \<Longrightarrow> Q (snd (messages_store c r t m u))"
    and conv: "\<And>a p c u. Q u \<Longrightarrow> Q (snd (conversations_create a p c u))"
  shows "Q (snd (chat_load message userId conversationId w))"
  using assms(1)
  by (cases conversationId)
     (simp_all add: chat_load_def Let_def split_beta emit msg conv searchByUser_result)

lemma chat_load_facts:
  "trace (snd (chat_load message userId conversationId w)) =
     trace w @ load_events conversationId"
  "\<exists>m. messages (snd (chat_load message userId conversationId w)) = messages w @ [m] \<and>
       msg_role m = ''user'' \<and> msg_content m = message"
  "codeChangeRequests (snd (chat_load message userId conversationId w)) =
     codeChangeRequests w"
  "fetched (snd (chat_load message userId conversationId w)) = fetched w"
  "memories (snd (chat_load message userId conversationId w)) = memories w"
  by (cases conversationId;
      simp add: chat_load_def Let_def split_beta searchByUser_result load_events_def
        messages_store_def conversations_create_def)+

lemma chat_load_throws:
  assumes "filter (\<lambda>m. mem_userId m = userId) (memories w) \<noteq> []"
  shows "fst (chat_load message userId conversationId w) =
           Inl (Some (Error ''TypeError'' ''ctx.db.patch is not a function''))"
  using assms
  by (cases conversationId;
      simp add: chat_load_def Let_def split_beta searchByUser_result num_or_def take_eq_Nil
        messages_store_def conversations_create_def)

lemma chat_load_succeeds:
  assumes "filter (\<lambda>m. mem_userId m = userId) (memories w) = []"
  shows "\<exists>convId history. fst (chat_load message userId conversationId w) =
           Inr (convId, history, [])"
  using assms
  by (cases conversationId;
      simp add: chat_load_def Let_def split_beta searchByUser_result num_or_def take_eq_Nil
        messages_store_def conversations_create_def)

lemma chat_throws_at_step_3:
  assumes "filter (\<lambda>m. mem_userId m = userId) (memories w) \<noteq> []"
  shows "chat env message userId conversationId w =
           (Inl (Some (Error ''TypeError'' ''ctx.db.patch is not a function'')),
            snd (chat_load message userId conversationId w))"
  using chat_load_throws [OF assms, of message conversationId]
  by (cases "chat_load message userId conversationId w") (simp add: chat_def)

text \<open>
  The handler reads the property \<open>requiresPARAContext\<close> of the object of step 4, which
  has none: a turn whose steps 1 to 3 succeed goes from step 4 to the code change check
  with \<open>paraContext = null\<close>.
\<close>

lemma chat_skips_gather:
  assumes "fst (chat_load message userId conversationId w) = Inr (convId, history, mems)"
  shows "chat env message userId conversationId w =
           chat_code_check env message userId convId history mems Null
             (emit (Call ''analyzeIntent'') (snd (chat_load message userId conversationId w)))"
  using assms
  by (cases "chat_load message userId conversationId w")
     (simp add: chat_def chat_context_def analyzeIntent_requiresPARAContext)

lemma chat_preserves:
  assumes "Q w"
    and emit: "\<And>e u. Q u \<Longrightarrow> \<not> is_run_action e \<Longrightarrow> Q (emit e u)"
    and sleep: "\<And>ms u. Q u \<Longrightarrow> Q (sleep ms u)"
    and fetched: "\<And>u n. Q u \<Longrightarrow> Q (u\<lparr>fetched := n\<rparr>)"
    and store: "\<And>a t c x u. Q u \<Longrightarrow> x = 0.8 \<or> x = 0.9 \<or> x = 0.7 \<Longrightarrow>
                  Q (snd (memories_store a t c None (Some x) u))"
    and msg: "\<And>c r t m u. Q u \<Longrightarrow> Q (snd (messages_store c r t m u))"
    and act: "\<And>c u u'. Q u \<Longrightarrow> conversations_updateActivity c u = Inr u' \<Longrightarrow> Q u'"
    and ccr: "\<And>a r h p c u. Q u \<Longrightarrow> Q (snd (codeChangeRequests_create a r h p c u))"
    and conv: "\<And>a p c u. Q u \<Longrightarrow> Q (snd (conversations_create a p c u))"
  shows "Q (snd (chat env message userId conversationId w))"
proof -
  let ?w4 = "snd (chat_load message userId conversationId w)"
  have q4: "Q ?w4"
    using chat_load_preserves [where Q = Q, OF assms(1) emit msg conv] by simp
  show ?thesis
  proof (cases "fst (chat_load message userId conversationId w)")
    case (Inl thrown)
    then have "snd (chat env message userId conversationId w) = ?w4"
      by (cases "chat_load message userId conversationId w") (simp add: chat_def)
    then show ?thesis using q4 by simp
  next
    case (Inr loaded)
    obtain convId history mems where "loaded = (convId, history, mems)"
      by (cases loaded) auto
    then have run: "chat env message userId conversationId w =
        chat_code_check env message userId convId history mems Null
          (emit (Call ''analyzeIntent'') ?w4)"
      using Inr chat_skips_gather by simp
    have "Q (emit (Call ''analyzeIntent'') ?w4)" using q4 by (simp add: emit)
    then have "Q (snd (chat_code_check env message userId convId history mems Null
                         (emit (Call ''analyzeIntent'') ?w4)))"
      by (rule chat_code_check_preserves [where Q = Q, OF _ emit sleep fetched store msg act ccr])
    then show ?thesis by (simp add: run)
  qed
qed

text \<open>A turn calls no action: the context provider is called in no turn.\<close>

lemma chat_calls_no_action:
  "\<exists>evs. trace (snd (chat env message userId conversationId w)) = trace w @ evs \<and> quiet evs"
proof -
  let ?Q = "\<lambda>x. \<exists>evs. trace x = trace w @ evs \<and> quiet evs"
  have "?Q w" by simp
  then show ?thesis
    by (rule chat_preserves [where Q = ?Q, OF _ extends_rules(1,2,3,4,5,6,7,8)])
qed

text \<open>A turn keeps the importance of every stored memory between 0 and 1.\<close>

lemma importance_inv_chat:
  assumes "importance_inv w"
  shows "importance_inv (snd (chat env message userId conversationId w))"
proof (rule chat_preserves [where Q = importance_inv, OF assms])
  show "\<And>e u. importance_inv u \<Longrightarrow> \<not> is_run_action e \<Longrightarrow> importance_inv (emit e u)"
    by (simp add: importance_inv_def)
  show "\<And>ms u. importance_inv u \<Longrightarrow> importance_inv (sleep ms u)"
    by (simp add: importance_inv_def)
  show "\<And>u n. importance_inv u \<Longrightarrow> importance_inv (u\<lparr>fetched := n\<rparr>)"
    by (simp add: importance_inv_def)
  show "\<And>a t c x u. importance_inv u \<Longrightarrow> x = 0.8 \<or> x = 0.9 \<or> x = 0.7 \<Longrightarrow>
          importance_inv (snd (memories_store a t c None (Some x) u))"
    by (auto simp: importance_inv_def memories_store_def num_or_def)
  show "\<And>c r t m u. importance_inv u \<Longrightarrow> importance_inv (snd (messages_store c r t m u))"
    by (simp add: importance_inv_def messages_store_def)
  show "\<And>c u u'. importance_inv u \<Longrightarrow> conversations_updateActivity c u = Inr u' \<Longrightarrow>
          importance_inv u'"
    by (simp add: importance_inv_def updateActivity_fields)
  show "\<And>a r h p c u. importance_inv u \<Longrightarrow>
          importance_inv (snd (codeChangeRequests_create a r h p c u))"
    by (simp add: importance_inv_def codeChangeRequests_create_def)
  show "\<And>a p c u. importance_inv u \<Longrightarrow> importance_inv (snd (conversations_create a p c u))"
    by (simp add: importance_inv_def conversations_create_def)
qed


section \<open>The turn of a code change request\<close>

lemma new_events_append: "trace w' = trace w @ evs \<Longrightarrow> new_events w w' = evs"
  by (simp add: new_events_def)

text \<open>
  When steps 1 to 3 of the turn succeed and the lower-cased utterance contains a code
  change keyword: the detector returns \<open>detected = true\<close>; the turn returns a result of
  type \<open>code_change_request\<close>; the table of code change requests has grown by exactly
  one request, of this user, with the utterance as its request; and the events of the
  turn are those of steps 1 to 3, the calls of the classifier and of the detector, and
  one mutation \<open>codeChangeRequests/create\<close>: no \<open>fetch\<close>, no call of \<open>generateResponse\<close>
  or \<open>extractMemories\<close>, no \<open>memories/store\<close>.
\<close>

lemma chat_code_change_short_circuit:
  assumes ok: "\<not> isl (fst (chat_load message userId conversationId w))"
    and kw: "list_ex (str_includes (toLowerCase env message)) codeChangeKeywords"
  shows "detected (detectCodeChangeRequest (toLowerCase env) message history) \<and>
         fst (chat env message userId conversationId w) =
           Inr (CodeChangeRequest (acknowledgement message) message) \<and>
         result_type (CodeChangeRequest (acknowledgement message) message) =
           ''code_change_request'' \<and>
         (\<exists>r. codeChangeRequests (snd (chat env message userId conversationId w)) =
                 codeChangeRequests w @ [r] \<and>
               ccr_userId r = userId \<and> ccr_request r = message \<and> ccr_status r = ''pending'') \<and>
         new_events w (snd (chat env message userId conversationId w)) =
           load_events conversationId @
           [Call ''analyzeIntent'', Call ''detectCodeChangeRequest'',
            RunMutation ''codeChangeRequests/create''] \<and>
         fetched (snd (chat env message userId conversationId w)) = fetched w \<and>
         memories (snd (chat env message userId conversationId w)) = memories w"
proof -
  let ?w4 = "snd (chat_load message userId conversationId w)"
  obtain convId hist mems where
    load: "fst (chat_load message userId conversationId w) = Inr (convId, hist, mems)"
    using ok by (cases "fst (chat_load message userId conversationId w)") auto
  note facts = chat_load_facts [of message userId conversationId w]
  have det: "\<And>h. detected (detectCodeChangeRequest (toLowerCase env) message h)"
    using kw by (simp add: detect_detected)
  from detect_fields [OF det] obtain p c where fields:
    "request (detectCodeChangeRequest (toLowerCase env) message hist) = Some message"
    "priority (detectCodeChangeRequest (toLowerCase env) message hist) = Some p"
    "category (detectCodeChangeRequest (toLowerCase env) message hist) = Some c" by blast
  let ?w' = "snd (codeChangeRequests_create userId message
                    (stringify_messages env (slice_last 3 hist)) p c
                    (emit (RunMutation ''codeChangeRequests/create'')
                       (emit (Call ''detectCodeChangeRequest'')
                          (emit (Call ''analyzeIntent'') ?w4))))"
  have run: "chat env message userId conversationId w =
               (Inr (CodeChangeRequest (acknowledgement message) message), ?w')"
    using det [of hist] fields
    by (simp add: chat_skips_gather [OF load] chat_code_check_def Let_def)
  have tr: "trace ?w' = trace w @ load_events conversationId @
              [Call ''analyzeIntent'', Call ''detectCodeChangeRequest'',
               RunMutation ''codeChangeRequests/create'']"
    by (simp add: facts(1))
  have ccr: "\<exists>r. codeChangeRequests ?w' = codeChangeRequests w @ [r] \<and>
               ccr_userId r = userId \<and> ccr_request r = message \<and> ccr_status r = ''pending''"
    by (simp add: codeChangeRequests_create_def facts(3))
  have rest: "fetched ?w' = fetched w" "memories ?w' = memories w"
    by (simp_all add: codeChangeRequests_create_def facts(4,5))
  show ?thesis
    using det [of history] ccr rest new_events_append [OF tr] by (simp add: run)
qed

text \<open>
  C1, at the utterance \<open>Can you add it?\<close> of user 7, who has one stored memory: the
  utterance contains the keyword \<open>can you\<close> and the detector would return
  \<open>detected = true\<close>, but the turn throws the \<open>TypeError\<close> of \<open>memories/searchByUser\<close> at
  step 3: it returns no result of type \<open>code_change_request\<close>, stores no code change
  request, and its events stop at the memory query, before the detector runs.
\<close>

theorem C1_chat_failing_input:
  "list_ex (str_includes (toLowerCase env_up ''Can you add it?'')) codeChangeKeywords \<and>
   detected (detectCodeChangeRequest (toLowerCase env_up) ''Can you add it?'' []) \<and>
   map mem_userId (memories one_memory) = [7] \<and>
   fst (chat env_up ''Can you add it?'' 7 None one_memory) =
     Inl (Some (Error ''TypeError'' ''ctx.db.patch is not a function'')) \<and>
   codeChangeRequests (snd (chat env_up ''Can you add it?'' 7 None one_memory)) = [] \<and>
   new_events one_memory (snd (chat env_up ''Can you add it?'' 7 None one_memory)) =
     [RunMutation ''conversations/create'', RunMutation ''messages/store'',
      RunQuery ''messages/listByConversation'', RunQuery ''memories/searchByUser'']"
proof -
  have kw: "list_ex (str_includes (toLowerCase env_up ''Can you add it?'')) codeChangeKeywords"
    by (simp add: env_up_def asciiLowerCase_def codeChangeKeywords_def)
  have det: "detected (detectCodeChangeRequest (toLowerCase env_up) ''Can you add it?'' [])"
    using kw by (simp add: detect_detected)
  have m: "map mem_userId (memories one_memory) = [7]"
    and c: "codeChangeRequests one_memory = []"
    by (simp_all add: one_memory_def memories_store_def empty_world_def)
  have has: "filter (\<lambda>m. mem_userId m = 7) (memories one_memory) \<noteq> []"
    using m by (cases "memories one_memory") auto
  have run: "chat env_up ''Can you add it?'' 7 None one_memory =
      (Inl (Some (Error ''TypeError'' ''ctx.db.patch is not a function'')),
       snd (chat_load ''Can you add it?'' 7 None one_memory))"
    by (rule chat_throws_at_step_3 [OF has])
  have tr: "trace (snd (chat_load ''Can you add it?'' 7 None one_memory)) =
      trace one_memory @
      [RunMutation ''conversations/create'', RunMutation ''messages/store'',
       RunQuery ''messages/listByConversation'', RunQuery ''memories/searchByUser'']"
    by (simp add: chat_load_facts(1) load_events_def)
  show ?thesis
    using kw det m new_events_append [OF tr] by (simp add: run chat_load_facts(3) c)
qed


section \<open>The turn whose model backend is down\<close>

lemma generateResponse_eq:
  "generateResponse env userMessage history mems paraContext u =
     (if key_missing env
      then (Inl (Error ''Error'' ''Z.AI API key not found in environment variables''), u)
      else (reply_result (fetch env (fetched u)),
            (emit (Fetch ([(''system'', systemContent (stringify env) mems paraContext)] @
                          slice_last 10 history @ [(''user'', userMessage)])) u)
              \<lparr>fetched := Suc (fetched u)\<rparr>))"
  by (simp add: generateResponse_def key_missing_def Let_def)

lemma retry_generate_fails:
  assumes "\<not> key_missing env"
    and "reply_result (fetch env (fetched u)) = Inl e1"
    and "reply_result (fetch env (fetched u + 1)) = Inl e2"
    and "reply_result (fetch env (fetched u + 2)) = Inl e3"
  shows "fst (executeWithFaultTolerance
                (\<lambda>w'. generateResponse env userMessage history mems paraContext
                         (emit (Call ''generateResponse'') w')) ctx u) = Inl (Some e3)"
  using assms by (simp add: executeWithFaultTolerance_unfold generateResponse_eq)

lemma retry_generate_no_key:
  assumes "key_missing env"
  shows "fst (executeWithFaultTolerance
                (\<lambda>w'. generateResponse env userMessage history mems paraContext
                         (emit (Call ''generateResponse'') w')) ctx u) =
           Inl (Some (Error ''Error'' ''Z.AI API key not found in environment variables''))"
  using assms by (simp add: executeWithFaultTolerance_unfold generateResponse_eq)

lemma retry_generate_world:
  "messages (snd (executeWithFaultTolerance
                (\<lambda>w'. generateResponse env userMessage history mems paraContext
                         (emit (Call ''generateResponse'') w')) ctx u)) = messages u \<and>
   memories (snd (executeWithFaultTolerance
                (\<lambda>w'. generateResponse env userMessage history mems paraContext
                         (emit (Call ''generateResponse'') w')) ctx u)) = memories u \<and>
   (\<exists>evs. trace (snd (executeWithFaultTolerance
                (\<lambda>w'. generateResponse env userMessage history mems paraContext
                         (emit (Call ''generateResponse'') w')) ctx u)) = trace u @ evs \<and>
          list_all retry_event evs)"
proof -
  let ?Q = "\<lambda>x. messages x = messages u \<and> memories x = memories u \<and>
                (\<exists>evs. trace x = trace u @ evs \<and> list_all retry_event evs)"
  have "?Q (snd (executeWithFaultTolerance
                (\<lambda>w'. generateResponse env userMessage history mems paraContext
                         (emit (Call ''generateResponse'') w')) ctx u))"
  proof (rule executeWithFaultTolerance_preserves [where Q = ?Q])
    show "?Q u" by simp
    show "\<And>x. ?Q x \<Longrightarrow> ?Q (snd (generateResponse env userMessage history mems paraContext
                                   (emit (Call ''generateResponse'') x)))"
      by (auto simp: generateResponse_eq)
    show "\<And>n x. ?Q x \<Longrightarrow> ?Q (emit (Attempt n) x)" by auto
    show "\<And>n e x. ?Q x \<Longrightarrow> ?Q (emit (ConsoleError n e) x)" by auto
    show "\<And>ms x. ?Q x \<Longrightarrow> ?Q (sleep ms x)" by auto
  qed
  then show ?thesis by blast
qed

lemma retry_generate_attempts:
  assumes "fst (executeWithFaultTolerance
                (\<lambda>w'. generateResponse env userMessage history mems paraContext
                         (emit (Call ''generateResponse'') w')) ctx u) = Inl thrown"
  shows "attempts (trace (snd (executeWithFaultTolerance
                (\<lambda>w'. generateResponse env userMessage history mems paraContext
                         (emit (Call ''generateResponse'') w')) ctx u))) =
           attempts (trace u) + 3"
proof -
  let ?op = "\<lambda>w'. generateResponse env userMessage history mems paraContext
                     (emit (Call ''generateResponse'') w')"
  have fa: "\<And>x. attempts (trace (snd (?op x))) = attempts (trace x)"
    and fw: "\<And>x. waited (trace (snd (?op x))) = waited (trace x)"
    and fn: "\<And>x. now (snd (?op x)) = now x"
    by (simp_all add: generateResponse_eq)
  from executeWithFaultTolerance_counts [of ?op ctx u, OF fa fw fn] assms
  have k: "attempts (trace (snd (executeWithFaultTolerance ?op ctx u))) - attempts (trace u) = 3"
    by (simp add: Let_def)
  then show ?thesis by simp
qed


text \<open>
  C3 as stated fails: without an API key every attempt of the model call throws the
  error \<open>Z.AI API key not found in environment variables\<close>, and the turn on the empty
  store fails with that very error, of the class \<open>Error\<close>; what is thrown is no error
  of a class \<open>ExhaustedRetries\<close> that would carry it.
\<close>

theorem C3_no_ExhaustedRetries_error_counterexample:
  "fst (generateResponse env_no_key ''Hello there'' [] [] Null empty_world) =
     Inl (Error ''Error'' ''Z.AI API key not found in environment variables'') \<and>
   fst (executeWithFaultTolerance
          (generateResponse env_no_key ''Hello there'' [] [] Null)
          (''generate_response'', 7, 0) empty_world) =
     Inl (Some (Error ''Error'' ''Z.AI API key not found in environment variables'')) \<and>
   fst (chat env_no_key ''Hello there'' 7 None empty_world) =
     Inl (Some (Error ''Error'' ''Z.AI API key not found in environment variables'')) \<and>
   \<not> spec_ExhaustedRetries
       (Error ''Error'' ''Z.AI API key not found in environment variables'')"
proof -
  have key: "key_missing env_no_key"
    by (simp add: key_missing_def env_no_key_def env_up_def str_or_def)
  have gen: "\<And>h ms u. generateResponse env_no_key ''Hello there'' h ms Null u =
      (Inl (Error ''Error'' ''Z.AI API key not found in environment variables''), u)"
    using key by (simp add: generateResponse_eq)
  have ex: "fst (executeWithFaultTolerance
          (generateResponse env_no_key ''Hello there'' [] [] Null)
          (''generate_response'', 7, 0) empty_world) =
     Inl (Some (Error ''Error'' ''Z.AI API key not found in environment variables''))"
    by (simp add: executeWithFaultTolerance_unfold gen)
  have none: "filter (\<lambda>m. mem_userId m = 7) (memories empty_world) = []"
    by (simp add: empty_world_def)
  obtain convId hist where
    load: "fst (chat_load ''Hello there'' 7 None empty_world) = Inr (convId, hist, [])"
    using chat_load_succeeds [OF none] by blast
  have lower: "toLowerCase env_no_key ''Hello there'' = ''hello there''"
    by (simp add: env_no_key_def env_up_def asciiLowerCase_def)
  have nodet: "\<not> detected (detectCodeChangeRequest (toLowerCase env_no_key) ''Hello there'' hist)"
    by (simp add: detect_detected lower codeChangeKeywords_def)
  have chat: "fst (chat env_no_key ''Hello there'' 7 None empty_world) =
     Inl (Some (Error ''Error'' ''Z.AI API key not found in environment variables''))"
    using nodet
    by (simp add: chat_skips_gather [OF load] chat_code_check_def chat_respond_def Let_def
          executeWithFaultTolerance_unfold gen)
  show ?thesis using ex chat by (simp add: gen spec_ExhaustedRetries_def)
qed


text \<open>
  C3 as amended: when steps 1 to 3 of the turn succeed, the utterance contains no code
  change keyword and every attempt of the model call fails (there is no API key, or
  the three replies of the backend are failures), the turn makes three attempts and
  fails with the error of the last attempt itself, as the executor rethrows it; the
  only message it has stored is the user message; the stored memories are as before;
  and after the detector the turn has only events of the executor: no call of
  \<open>extractMemories\<close>, no mutation, so no assistant message and no memory is stored.
\<close>

theorem C3_last_error_rethrown_fatal:
  assumes "\<not> isl (fst (chat_load message userId conversationId w))"
    and "\<not> list_ex (str_includes (toLowerCase env message)) codeChangeKeywords"
    and "key_missing env \<and>
           e3 = Error ''Error'' ''Z.AI API key not found in environment variables'' \<or>
         \<not> key_missing env \<and>
         reply_result (fetch env (fetched w)) = Inl e1 \<and>
         reply_result (fetch env (fetched w + 1)) = Inl e2 \<and>
         reply_result (fetch env (fetched w + 2)) = Inl e3"
  shows "fst (chat env message userId conversationId w) = Inl (Some e3) \<and>
         (\<exists>m. messages (snd (chat env message userId conversationId w)) = messages w @ [m] \<and>
              msg_role m = ''user'' \<and> msg_content m = message) \<and>
         memories (snd (chat env message userId conversationId w)) = memories w \<and>
         (\<exists>evs. new_events w (snd (chat env message userId conversationId w)) =
                  load_events conversationId @
                  [Call ''analyzeIntent'', Call ''detectCodeChangeRequest''] @ evs \<and>
                list_all retry_event evs \<and> attempts evs = 3)"
proof -
  let ?w4 = "snd (chat_load message userId conversationId w)"
  obtain convId hist mems where
    load: "fst (chat_load message userId conversationId w) = Inr (convId, hist, mems)"
    using assms(1) by (cases "fst (chat_load message userId conversationId w)") auto
  note facts = chat_load_facts [of message userId conversationId w]
  define u where "u = emit (Call ''detectCodeChangeRequest'') (emit (Call ''analyzeIntent'') ?w4)"
  let ?run = "executeWithFaultTolerance
                (\<lambda>w'. generateResponse env message (map (\<lambda>m. (msg_role m, msg_content m)) hist)
                         (map mem_content mems) Null (emit (Call ''generateResponse'') w'))
                (''generate_response'', userId, convId) u"
  have fu: "fetched u = fetched w" by (simp add: u_def facts(4))
  have res: "fst ?run = Inl (Some e3)"
    using assms(3) retry_generate_fails [of env u e1 e2 e3] retry_generate_no_key [of env]
    by (auto simp: fu)
  have nodet: "\<not> detected (detectCodeChangeRequest (toLowerCase env) message hist)"
    using assms(2) by (simp add: detect_detected)
  have chat: "chat env message userId conversationId w = (Inl (Some e3), snd ?run)"
    using nodet res
    by (cases ?run) (simp add: chat_skips_gather [OF load] chat_code_check_def chat_respond_def
                       Let_def u_def)
  from retry_generate_world [of env message "map (\<lambda>m. (msg_role m, msg_content m)) hist"
      "map mem_content mems" Null "(''generate_response'', userId, convId)" u]
  obtain evs where world:
    "messages (snd ?run) = messages u" "memories (snd ?run) = memories u"
    "trace (snd ?run) = trace u @ evs" "list_all retry_event evs" by blast
  have "attempts (trace (snd ?run)) = attempts (trace u) + 3"
    using res by (rule retry_generate_attempts)
  then have three: "attempts evs = 3" by (simp add: world(3))
  have tu: "trace u = trace w @ load_events conversationId @
              [Call ''analyzeIntent'', Call ''detectCodeChangeRequest'']"
    and mu: "messages u = messages ?w4" "memories u = memories ?w4"
    by (simp_all add: u_def facts(1))
  have tr: "trace (snd ?run) = trace w @ load_events conversationId @
              [Call ''analyzeIntent'', Call ''detectCodeChangeRequest''] @ evs"
    by (simp add: world(3) tu)
  have msgs: "\<exists>m. messages (snd ?run) = messages w @ [m] \<and> msg_role m = ''user'' \<and>
                 msg_content m = message"
    using facts(2) by (auto simp: world(1) mu)
  have mems: "memories (snd ?run) = memories w"
    by (simp add: world(2) mu facts(5))
  show ?thesis
    using msgs mems new_events_append [OF tr] world(4) three by (simp add: chat)
qed


text \<open>C3 as amended, at the utterance \<open>Hello there\<close> on the empty store, with the backend down.\<close>

theorem C3_last_error_rethrown_fatal_witness:
  "\<not> isl (fst (chat_load ''Hello there'' 7 None empty_world)) \<and>
   \<not> list_ex (str_includes (toLowerCase env_down ''Hello there'')) codeChangeKeywords \<and>
   \<not> key_missing env_down \<and>
   reply_result (fetch env_down (fetched empty_world + 2)) =
     Inl (Error ''TypeError'' ''fetch failed'') \<and>
   fst (chat env_down ''Hello there'' 7 None empty_world) =
     Inl (Some (Error ''TypeError'' ''fetch failed'')) \<and>
   (\<exists>m. messages (snd (chat env_down ''Hello there'' 7 None empty_world)) = [m] \<and>
        msg_role m = ''user'' \<and> msg_content m = ''Hello there'')"
proof -
  have none: "filter (\<lambda>m. mem_userId m = 7) (memories empty_world) = []"
    by (simp add: empty_world_def)
  have ok: "\<not> isl (fst (chat_load ''Hello there'' 7 None empty_world))"
    using chat_load_succeeds [OF none, of "''Hello there''" None] by auto
  have kw: "\<not> list_ex (str_includes (toLowerCase env_down ''Hello there'')) codeChangeKeywords"
    by (simp add: env_down_def env_up_def asciiLowerCase_def codeChangeKeywords_def)
  have key: "\<not> key_missing env_down"
    by (simp add: key_missing_def env_down_def env_up_def str_or_def)
  have down: "\<And>k. reply_result (fetch env_down k) = Inl (Error ''TypeError'' ''fetch failed'')"
    by (simp add: reply_result_def env_down_def)
  have "key_missing env_down \<and>
          Error ''TypeError'' ''fetch failed'' =
            Error ''Error'' ''Z.AI API key not found in environment variables'' \<or>
        \<not> key_missing env_down \<and>
          reply_result (fetch env_down (fetched empty_world)) =
            Inl (Error ''TypeError'' ''fetch failed'') \<and>
          reply_result (fetch env_down (fetched empty_world + 1)) =
            Inl (Error ''TypeError'' ''fetch failed'') \<and>
          reply_result (fetch env_down (fetched empty_world + 2)) =
            Inl (Error ''TypeError'' ''fetch failed'')"
    using key down by simp
  from C3_last_error_rethrown_fatal [OF ok kw this] ok kw key down
  show ?thesis by (simp add: empty_world_def)
qed

end
